theory Spec2Isabelle
  imports Complex_Main "HOL-Library.Sublist" "HOL-Library.AList"
begin

section \<open>Python values, dictionaries and exceptions\<close>

text \<open>
  The program is \<^verbatim>\<open>self_improvement_protocol.py\<close>. Its dictionaries are typed
  \<^verbatim>\<open>Dict[str, Any]\<close>; the values that the modelled functions inspect are strings, and the
  functions raise when they meet something else. The model keeps two kinds of value, a
  string and an integer (the example contexts of the repository hold both), so that each
  of those raises is a branch of the model.

  A string is a \<^typ>\<open>string\<close>; Python's \<^verbatim>\<open>a in b\<close> on two strings is \<^const>\<open>sublist\<close>
  (a contiguous run of \<open>b\<close>), and \<^verbatim>\<open>x in xs\<close> on a list is membership.
  A dictionary is an association list in insertion order: \<^const>\<open>map_of\<close> reads it and
  \<^const>\<open>AList.update\<close> writes it (a key that is already there keeps its place, a new key goes
  to the end), which is the order Python's \<^verbatim>\<open>items()\<close> and \<^verbatim>\<open>values()\<close> follow.

  Timestamps (\<^verbatim>\<open>datetime.now()\<close>) written into result dictionaries are left out of the
  model, and so is logging.
\<close>

datatype pyval = Str string | Num int

datatype error =
    ValueError string
  | TypeError
  | AttributeError
  | OtherError string

type_synonym pydict = "(string \<times> pyval) list"

definition dict_get :: "pydict \<Rightarrow> string \<Rightarrow> pyval \<Rightarrow> pyval" where
  "dict_get d k dflt = (case map_of d k of None \<Rightarrow> dflt | Some v \<Rightarrow> v)"

definition lower_char :: "char \<Rightarrow> char" where
  "lower_char c =
     (let n = (of_char c :: nat) in if 65 \<le> n \<and> n \<le> 90 then char_of (n + 32) else c)"

text \<open>
  \<^verbatim>\<open>str.lower()\<close>, on the ASCII letters. Python also changes letters beyond ASCII. Only
  two of them give an ASCII letter: the Kelvin sign gives \<open>k\<close>, which is in none of the
  keys searched for below, and the dotted capital I gives \<open>i\<close> followed by a combining
  dot, which none of those keys continues. So the substring tests below come out as in
  Python.
\<close>

definition lower :: "string \<Rightarrow> string" where
  "lower s = map lower_char s"

section \<open>MultiAgentVerifier\<close>

record agent =
  agent_id :: string
  capabilities :: "string list"
  status :: string

record check_result =
  passed :: bool
  details :: string

record task =
  task_agent_id :: string
  task_change :: pydict
  checks :: "string list"

record agent_result =
  result_agent_id :: string
  results :: "(string \<times> check_result) list"
  overall :: bool

record verification_issue =
  issue_agent :: string
  issue_check :: string
  issue_details :: string

record verdict =
  verified :: bool
  agent_count :: nat
  issues :: "verification_issue list"
  confidence :: rat

record verification_record =
  rec_change :: pydict
  rec_results :: "agent_result list"
  rec_aggregated :: verdict

record verifier =
  agents :: "agent list"
  verification_results :: "verification_record list"

definition new_verifier :: verifier where
  "new_verifier = \<lparr>agents = [], verification_results = []\<rparr>"

definition register_agent :: "verifier \<Rightarrow> string \<Rightarrow> string list \<Rightarrow> verifier" where
  "register_agent v aid caps =
     v\<lparr>agents := agents v @ [\<lparr>agent_id = aid, capabilities = caps, status = ''active''\<rparr>]\<rparr>"

text \<open>
  \<^verbatim>\<open>_can_verify\<close>: \<^verbatim>\<open>any(cap in change_type for cap in agent["capabilities"])\<close> with
  \<^verbatim>\<open>change_type = change.get("type", "")\<close>. When the type is not a string, the first
  \<^verbatim>\<open>cap in change_type\<close> raises TypeError; with no capability, nothing is evaluated.
\<close>

definition can_verify :: "agent \<Rightarrow> pydict \<Rightarrow> error + bool" where
  "can_verify a change =
     (case dict_get change ''type'' (Str []) of
        Str change_type \<Rightarrow> Inr (list_ex (\<lambda>cap. sublist cap change_type) (capabilities a))
      | Num n \<Rightarrow> (if capabilities a = [] then Inr False else Inl TypeError))"

definition determine_checks :: "agent \<Rightarrow> pydict \<Rightarrow> string list" where
  "determine_checks a change =
     (if ''code'' \<in> set (capabilities a) then [''syntax'', ''style'', ''complexity''] else [])
     @ (if ''security'' \<in> set (capabilities a) then [''vulnerabilities'', ''permissions''] else [])
     @ (if ''performance'' \<in> set (capabilities a) then [''efficiency'', ''memory_usage''] else [])"

definition create_verification_task :: "agent \<Rightarrow> pydict \<Rightarrow> task" where
  "create_verification_task a change =
     \<lparr>task_agent_id = agent_id a, task_change = change, checks = determine_checks a change\<rparr>"

subsection \<open>The checks\<close>

definition check_syntax :: "pydict \<Rightarrow> check_result" where
  "check_syntax change = \<lparr>passed = True, details = ''Syntax valid''\<rparr>"

definition check_style :: "pydict \<Rightarrow> check_result" where
  "check_style change = \<lparr>passed = True, details = ''Style compliant''\<rparr>"

definition check_complexity :: "pydict \<Rightarrow> check_result" where
  "check_complexity change = \<lparr>passed = True, details = ''Complexity acceptable''\<rparr>"

definition check_vulnerabilities :: "pydict \<Rightarrow> check_result" where
  "check_vulnerabilities change = \<lparr>passed = True, details = ''No vulnerabilities found''\<rparr>"

definition check_permissions :: "pydict \<Rightarrow> check_result" where
  "check_permissions change = \<lparr>passed = True, details = ''Permissions appropriate''\<rparr>"

definition check_efficiency :: "pydict \<Rightarrow> check_result" where
  "check_efficiency change = \<lparr>passed = True, details = ''Efficiency optimal''\<rparr>"

definition check_memory_usage :: "pydict \<Rightarrow> check_result" where
  "check_memory_usage change = \<lparr>passed = True, details = ''Memory usage acceptable''\<rparr>"

definition default_check :: "pydict \<Rightarrow> check_result" where
  "default_check change = \<lparr>passed = True, details = ''Check passed''\<rparr>"

definition check_table :: "(string \<times> (pydict \<Rightarrow> check_result)) list" where
  "check_table =
     [(''syntax'', check_syntax),
      (''style'', check_style),
      (''complexity'', check_complexity),
      (''vulnerabilities'', check_vulnerabilities),
      (''permissions'', check_permissions),
      (''efficiency'', check_efficiency),
      (''memory_usage'', check_memory_usage)]"

text \<open>
  A check implementation is a function from the check's name and the change to a result, or
  to the exception it raises. \<^verbatim>\<open>_execute_verification\<close> reaches it as
  \<^verbatim>\<open>self._perform_check\<close>; the functions below take it as their first argument, and
  \<open>perform_check\<close> is the one the source defines: a table lookup with a default, none of
  whose entries raises.
\<close>

type_synonym checker = "string \<Rightarrow> pydict \<Rightarrow> error + check_result"

definition perform_check :: checker where
  "perform_check check_type change =
     Inr ((case map_of check_table check_type of None \<Rightarrow> default_check | Some f \<Rightarrow> f) change)"

subsection \<open>Running one task, running all of them\<close>

text \<open>
  The loop of \<^verbatim>\<open>_execute_verification\<close>: \<^verbatim>\<open>results[check] = result\<close> for each check in
  turn. There is no \<^verbatim>\<open>try\<close> around the call, so an exception of a check leaves the
  function.
\<close>

fun run_checks ::
  "checker \<Rightarrow> pydict \<Rightarrow> string list \<Rightarrow> (string \<times> check_result) list
     \<Rightarrow> error + (string \<times> check_result) list" where
  "run_checks pc change [] acc = Inr acc"
| "run_checks pc change (c # cs) acc =
     (case pc c change of
        Inl e \<Rightarrow> Inl e
      | Inr r \<Rightarrow> run_checks pc change cs (AList.update c r acc))"

definition execute_verification :: "checker \<Rightarrow> task \<Rightarrow> error + agent_result" where
  "execute_verification pc t =
     (case run_checks pc (task_change t) (checks t) [] of
        Inl e \<Rightarrow> Inl e
      | Inr rs \<Rightarrow>
          Inr \<lparr>result_agent_id = task_agent_id t,
               results = rs,
               overall = list_all (\<lambda>(c, r). passed r) rs\<rparr>)"

text \<open>The first loop of \<^verbatim>\<open>verify_change\<close>: one task for each agent that can verify.\<close>

fun select_tasks :: "agent list \<Rightarrow> pydict \<Rightarrow> error + task list" where
  "select_tasks [] change = Inr []"
| "select_tasks (a # as) change =
     (case can_verify a change of
        Inl e \<Rightarrow> Inl e
      | Inr b \<Rightarrow>
          (case select_tasks as change of
             Inl e \<Rightarrow> Inl e
           | Inr ts \<Rightarrow> Inr (if b then create_verification_task a change # ts else ts)))"

text \<open>
  \<^verbatim>\<open>asyncio.gather\<close> without \<^verbatim>\<open>return_exceptions\<close>: the results in the order of the
  tasks, or the exception of a task that raised, passed on to the caller. The model runs
  the tasks in order and passes on the first exception.
\<close>

fun gather :: "checker \<Rightarrow> task list \<Rightarrow> error + agent_result list" where
  "gather pc [] = Inr []"
| "gather pc (t # ts) =
     (case execute_verification pc t of
        Inl e \<Rightarrow> Inl e
      | Inr r \<Rightarrow> (case gather pc ts of Inl e \<Rightarrow> Inl e | Inr rs \<Rightarrow> Inr (r # rs)))"

definition issues_of :: "agent_result \<Rightarrow> verification_issue list" where
  "issues_of r =
     map (\<lambda>(c, cr). \<lparr>issue_agent = result_agent_id r, issue_check = c,
                     issue_details = details cr\<rparr>)
         (filter (\<lambda>(c, cr). \<not> passed cr) (results r))"

text \<open>
  \<^verbatim>\<open>_aggregate_results\<close>. The quotient
  \<^verbatim>\<open>sum(1 for r in results if r["overall"]) / len(results) if results else 0\<close>
  is taken in the rationals: the rounding of Python's float division is not modelled.
\<close>

definition aggregate_results :: "agent_result list \<Rightarrow> verdict" where
  "aggregate_results rs =
     \<lparr>verified = list_all overall rs,
      agent_count = length rs,
      issues = concat (map issues_of rs),
      confidence =
        (if rs \<noteq> [] then of_nat (length (filter overall rs)) / of_nat (length rs) else 0)\<rparr>"

definition verify_change :: "checker \<Rightarrow> verifier \<Rightarrow> pydict \<Rightarrow> error + verdict \<times> verifier" where
  "verify_change pc v change =
     (case select_tasks (agents v) change of
        Inl e \<Rightarrow> Inl e
      | Inr verification_tasks \<Rightarrow>
          (case gather pc verification_tasks of
             Inl e \<Rightarrow> Inl e
           | Inr rs \<Rightarrow>
               (let aggregated = aggregate_results rs
                in Inr (aggregated,
                        v\<lparr>verification_results := verification_results v
                             @ [\<lparr>rec_change = change, rec_results = rs,
                                 rec_aggregated = aggregated\<rparr>]\<rparr>))))"

text \<open>\<^verbatim>\<open>SelfImprovementProtocol._setup_verification_agents\<close>.\<close>

definition setup_verification_agents :: "verifier \<Rightarrow> verifier" where
  "setup_verification_agents v =
     register_agent
       (register_agent
          (register_agent v ''code_agent'' [''code'', ''syntax'', ''style''])
          ''security_agent'' [''security'', ''permissions''])
       ''performance_agent'' [''performance'', ''efficiency'']"


text \<open>
  Two descriptions used in the statements below: the agents that can verify a change, in
  registration order, and whether every check assigned to an agent passes under a given
  check implementation.
\<close>

definition applicable_agents :: "verifier \<Rightarrow> pydict \<Rightarrow> agent list" where
  "applicable_agents v change = filter (\<lambda>a. can_verify a change = Inr True) (agents v)"

definition checks_pass :: "checker \<Rightarrow> pydict \<Rightarrow> agent \<Rightarrow> bool" where
  "checks_pass pc change a =
     list_all (\<lambda>c. case pc c change of Inl e \<Rightarrow> False | Inr r \<Rightarrow> passed r)
       (determine_checks a change)"

text \<open>
  An agent to which \<^verbatim>\<open>_determine_checks\<close> assigns no check: none of the three
  capabilities it tests for is among the agent's.
\<close>

definition no_known_capability :: "agent \<Rightarrow> bool" where
  "no_known_capability a =
     (''code'' \<notin> set (capabilities a) \<and> ''security'' \<notin> set (capabilities a)
      \<and> ''performance'' \<notin> set (capabilities a))"

text \<open>
  Two check implementations other than the source's, for running the verifier on a check
  that fails and on a check that raises: the first reports a style violation, the second
  raises in the syntax check; both behave as \<open>perform_check\<close> on every other check.
\<close>

definition style_failing_check :: checker where
  "style_failing_check check_type change =
     (if check_type = ''style'' then Inr \<lparr>passed = False, details = ''Line too long''\<rparr>
      else perform_check check_type change)"

definition syntax_raising_check :: checker where
  "syntax_raising_check check_type change =
     (if check_type = ''syntax'' then Inl (OtherError ''parser crashed'')
      else perform_check check_type change)"

section \<open>SelfHealingPatterns\<close>

text \<open>
  The program's multi-line text literals (the code of a fix, of a pattern, of a generated
  tool or document) are not spelled out. A function of type \<open>template\<close> stands for them:
  \<open>tpl name args\<close> is the text of the literal called \<open>name\<close> with the values \<open>args\<close>
  interpolated. Formatting a value into an f-string never raises.
\<close>

type_synonym template = "string \<Rightarrow> pyval list \<Rightarrow> string"

record pattern_application =
  pattern :: string
  target :: pyval
  implementation :: string

definition connection_retry_pattern :: "template \<Rightarrow> pyval \<Rightarrow> string" where
  "connection_retry_pattern tpl tgt = tpl ''connection_retry'' [tgt]"

definition circuit_breaker_pattern :: "template \<Rightarrow> pyval \<Rightarrow> string" where
  "circuit_breaker_pattern tpl tgt = tpl ''circuit_breaker'' [tgt]"

definition fallback_pattern :: "template \<Rightarrow> pyval \<Rightarrow> string" where
  "fallback_pattern tpl tgt = tpl ''fallback'' [tgt]"

definition cache_recovery_pattern :: "template \<Rightarrow> pyval \<Rightarrow> string" where
  "cache_recovery_pattern tpl tgt = tpl ''cache_recovery'' [tgt]"

definition rate_limiter_pattern :: "template \<Rightarrow> pyval \<Rightarrow> string" where
  "rate_limiter_pattern tpl tgt = tpl ''rate_limiter'' [tgt]"

definition health_check_pattern :: "template \<Rightarrow> pyval \<Rightarrow> string" where
  "health_check_pattern tpl tgt = tpl ''health_check'' [tgt]"

text \<open>\<^verbatim>\<open>self.patterns\<close>, the catalog built by \<^verbatim>\<open>__init__\<close>.\<close>

definition patterns :: "template \<Rightarrow> (string \<times> (pyval \<Rightarrow> string)) list" where
  "patterns tpl =
     [(''connection_retry'', connection_retry_pattern tpl),
      (''circuit_breaker'', circuit_breaker_pattern tpl),
      (''fallback'', fallback_pattern tpl),
      (''cache_recovery'', cache_recovery_pattern tpl),
      (''rate_limiter'', rate_limiter_pattern tpl),
      (''health_check'', health_check_pattern tpl)]"

text \<open>
  \<^verbatim>\<open>apply_pattern\<close>, on the list \<^verbatim>\<open>self.applied_patterns\<close>: it returns the result and the
  list with the result appended, or raises \<^verbatim>\<open>ValueError(f"Unknown pattern: {pattern_name}")\<close>.
\<close>

definition apply_pattern ::
  "template \<Rightarrow> pattern_application list \<Rightarrow> string \<Rightarrow> pyval
     \<Rightarrow> error + pattern_application \<times> pattern_application list" where
  "apply_pattern tpl applied pattern_name tgt =
     (case map_of (patterns tpl) pattern_name of
        None \<Rightarrow> Inl (ValueError (''Unknown pattern: '' @ pattern_name))
      | Some pattern_func \<Rightarrow>
          (let res = \<lparr>pattern = pattern_name, target = tgt,
                      implementation = pattern_func tgt\<rparr>
           in Inr (res, applied @ [res])))"

section \<open>Failure and MCPDebugger\<close>

datatype failure_type = MCP_ERROR | MISSING_TOOL | UNCLEAR_DOCS | RUNTIME_ERROR | VALIDATION_ERROR

record failure =
  ftype :: failure_type
  description :: string
  fcontext :: pydict
  timestamp :: string
  resolved :: bool
  resolution :: "string option"

record debug_result =
  issue :: string
  solution :: string
  code_changes :: "pydict option"

text \<open>\<^verbatim>\<open>str(v)\<close>, as an f-string formats a value.\<close>

fun digits :: "nat \<Rightarrow> string" where
  "digits n =
     (if n < 10 then [char_of (48 + n)] else digits (n div 10) @ [char_of (48 + n mod 10)])"

declare digits.simps [simp del]

definition py_str :: "pyval \<Rightarrow> string" where
  "py_str v =
     (case v of
        Str s \<Rightarrow> s
      | Num n \<Rightarrow> (if n < 0 then CHR ''-'' # digits (nat (- n)) else digits (nat n)))"

definition fix_connection_issue :: "template \<Rightarrow> failure \<Rightarrow> debug_result" where
  "fix_connection_issue tpl f =
     \<lparr>issue = ''Connection failure'',
      solution = ''Implemented retry logic with exponential backoff'',
      code_changes = Some [(''file'', Str ''mcp_connection.py''),
                           (''additions'', Str (tpl ''connect_with_retry'' []))]\<rparr>"

definition fix_timeout_issue :: "template \<Rightarrow> failure \<Rightarrow> debug_result" where
  "fix_timeout_issue tpl f =
     \<lparr>issue = ''Timeout error'',
      solution = ''Increased timeout and added configurable settings'',
      code_changes = Some [(''file'', Str ''mcp_config.py''),
                           (''additions'', Str (tpl ''mcp_timeout_settings'' []))]\<rparr>"

definition fix_auth_issue :: "template \<Rightarrow> failure \<Rightarrow> debug_result" where
  "fix_auth_issue tpl f =
     \<lparr>issue = ''Authentication failure'',
      solution = ''Enhanced credential management and validation'',
      code_changes = Some [(''file'', Str ''mcp_auth.py''),
                           (''additions'', Str (tpl ''validate_credentials'' []))]\<rparr>"

text \<open>\<^verbatim>\<open>stack_trace.split('\n')\<close>.\<close>

fun split_lines :: "string \<Rightarrow> string list" where
  "split_lines [] = [[]]"
| "split_lines (c # cs) =
     (if c = CHR 0x0A then [] # split_lines cs
      else (case split_lines cs of [] \<Rightarrow> [[c]] | l # ls \<Rightarrow> (c # l) # ls))"

text \<open>The loop of \<^verbatim>\<open>_analyze_and_fix_error\<close> over the lines: the last line of each kind wins.\<close>

fun scan_error_lines :: "string list \<Rightarrow> string \<times> string \<Rightarrow> string \<times> string" where
  "scan_error_lines [] (error_type, error_location) = (error_type, error_location)"
| "scan_error_lines (line # rest) (error_type, error_location) =
     scan_error_lines rest
       (if sublist ''Error:'' line then line else error_type,
        if sublist ''File'' line \<and> sublist ''.py'' line then line else error_location)"

definition analyze_and_fix_error :: "template \<Rightarrow> failure \<Rightarrow> error + debug_result" where
  "analyze_and_fix_error tpl f =
     (case dict_get (fcontext f) ''traceback'' (Str []) of
        Num n \<Rightarrow> Inl AttributeError
      | Str stack_trace \<Rightarrow>
          (case scan_error_lines (split_lines stack_trace) ([], []) of
             (error_type, error_location) \<Rightarrow>
               Inr \<lparr>issue = (if error_type \<noteq> [] then error_type else ''Unknown error''),
                    solution = ''Applied generic error handling'',
                    code_changes = Some [(''file'', Str ''error_handler.py''),
                                         (''additions'',
                                          Str (tpl ''error_handler'' [Str error_location]))]\<rparr>))"

text \<open>
  \<^verbatim>\<open>_fix_mcp_error\<close>: \<^verbatim>\<open>error_trace.lower()\<close> raises AttributeError on a traceback that is
  not a string. The fix is appended to \<^verbatim>\<open>self.fixes\<close> and the failure is marked resolved.
\<close>

definition fix_mcp_error ::
  "template \<Rightarrow> debug_result list \<Rightarrow> failure
     \<Rightarrow> error + debug_result \<times> debug_result list \<times> failure" where
  "fix_mcp_error tpl fixes f =
     (case dict_get (fcontext f) ''traceback'' (Str []) of
        Num n \<Rightarrow> Inl AttributeError
      | Str error_trace \<Rightarrow>
          (case (if sublist ''connection'' (lower error_trace) then Inr (fix_connection_issue tpl f)
                 else if sublist ''timeout'' (lower error_trace) then Inr (fix_timeout_issue tpl f)
                 else if sublist ''authentication'' (lower error_trace)
                   then Inr (fix_auth_issue tpl f)
                 else analyze_and_fix_error tpl f) of
             Inl e \<Rightarrow> Inl e
           | Inr fix \<Rightarrow>
               Inr (fix, fixes @ [fix],
                    f\<lparr>resolved := True, resolution := Some (solution fix)\<rparr>)))"

text \<open>
  \<^verbatim>\<open>_add_missing_tool\<close>: \<^verbatim>\<open>_generate_tool_implementation\<close> calls \<^verbatim>\<open>tool_name.title()\<close>,
  which raises AttributeError on a name that is not a string.
\<close>

definition add_missing_tool :: "template \<Rightarrow> failure \<Rightarrow> error + debug_result" where
  "add_missing_tool tpl f =
     (case dict_get (fcontext f) ''tool_name'' (Str ''unknown'') of
        Num n \<Rightarrow> Inl AttributeError
      | Str tool_name \<Rightarrow>
          Inr \<lparr>issue = ''Missing tool: '' @ tool_name,
               solution = ''Added '' @ tool_name @ '' to MCP'',
               code_changes = Some [(''file'', Str (''tools/'' @ tool_name @ ''.py'')),
                                    (''additions'',
                                     Str (tpl ''tool_implementation'' [Str tool_name]))]\<rparr>)"

definition improve_documentation :: "template \<Rightarrow> failure \<Rightarrow> debug_result" where
  "improve_documentation tpl f =
     (let doc_section = dict_get (fcontext f) ''section'' (Str [])
      in \<lparr>issue = ''Unclear documentation: '' @ py_str doc_section,
          solution = ''Tested and improved documentation'',
          code_changes = Some [(''file'', Str ''docs/improved_docs.md''),
                               (''additions'', Str (tpl ''documentation'' [doc_section]))]\<rparr>)"

definition generic_fix :: "template \<Rightarrow> failure \<Rightarrow> debug_result" where
  "generic_fix tpl f =
     \<lparr>issue = description f,
      solution = ''Applied generic error handling and logging'',
      code_changes = Some [(''file'', Str ''generic_fixes.py''),
                           (''additions'', Str (tpl ''handle_generic_error'' []))]\<rparr>"

text \<open>
  A debugger takes the list of fixes made so far and the failure; it returns its result,
  the new list and the failure as it has left it, or raises. \<open>debug_failure\<close> is
  \<^verbatim>\<open>MCPDebugger.debug_failure\<close>.
\<close>

type_synonym debugger =
  "debug_result list \<Rightarrow> failure \<Rightarrow> error + debug_result \<times> debug_result list \<times> failure"

definition debug_failure :: "template \<Rightarrow> debugger" where
  "debug_failure tpl fixes f =
     (case ftype f of
        MCP_ERROR \<Rightarrow> fix_mcp_error tpl fixes f
      | MISSING_TOOL \<Rightarrow>
          (case add_missing_tool tpl f of Inl e \<Rightarrow> Inl e | Inr fix \<Rightarrow> Inr (fix, fixes, f))
      | UNCLEAR_DOCS \<Rightarrow> Inr (improve_documentation tpl f, fixes, f)
      | _ \<Rightarrow> Inr (generic_fix tpl f, fixes, f))"


section \<open>SelfImprovementProtocol\<close>

text \<open>
  The state of the protocol object that \<^verbatim>\<open>handle_failure\<close> changes: the debugger's fixes,
  the verifier and the patterns applied so far. The regression test generator (which
  hashes the failure and writes a file) and the evaluation framework are taken as
  functions from the failure to their result or to the exception they raise; the records
  they keep of earlier runs are not modelled.
\<close>

record protocol =
  debugger_fixes :: "debug_result list"
  verifier_state :: verifier
  applied_patterns :: "pattern_application list"

definition new_protocol :: protocol where
  "new_protocol =
     \<lparr>debugger_fixes = [], verifier_state = setup_verification_agents new_verifier,
      applied_patterns = []\<rparr>"

datatype 'r step_result =
    Debug_result debug_result
  | Verification verdict
  | Test_file string
  | Healing_result pattern_application
  | Evaluation 'r

record 'r step_entry =
  step :: string
  result :: "'r step_result"

record 'r protocol_result =
  failure_dict :: failure
  steps :: "'r step_entry list"

text \<open>\<^verbatim>\<open>pattern_map\<close>, in the order of the dictionary literal, which is the order of \<^verbatim>\<open>items()\<close>.\<close>

definition pattern_map :: "(string \<times> string) list" where
  "pattern_map =
     [(''connection'', ''connection_retry''),
      (''timeout'', ''circuit_breaker''),
      (''rate_limit'', ''rate_limiter''),
      (''service_unavailable'', ''fallback''),
      (''cache_miss'', ''cache_recovery'')]"

fun healing_loop :: "(string \<times> string) list \<Rightarrow> string \<Rightarrow> string option" where
  "healing_loop [] error_type = None"
| "healing_loop ((key, pat) # rest) error_type =
     (if sublist key (lower error_type) then Some pat else healing_loop rest error_type)"

text \<open>
  \<^verbatim>\<open>_determine_healing_pattern\<close>: \<^verbatim>\<open>error_type.lower()\<close> raises AttributeError on an error
  type that is not a string.
\<close>

definition determine_healing_pattern :: "failure \<Rightarrow> error + string option" where
  "determine_healing_pattern f =
     (case dict_get (fcontext f) ''error_type'' (Str []) of
        Num n \<Rightarrow> Inl AttributeError
      | Str error_type \<Rightarrow> Inr (healing_loop pattern_map error_type))"

text \<open>
  The test \<^verbatim>\<open>if debug_result.get("code_changes")\<close>: a missing entry and an empty dictionary
  are both false.
\<close>

definition has_code_changes :: "debug_result \<Rightarrow> bool" where
  "has_code_changes dr = (case code_changes dr of None \<Rightarrow> False | Some c \<Rightarrow> c \<noteq> [])"

text \<open>Step 2 of \<^verbatim>\<open>handle_failure\<close>: the steps it appends and the verifier it leaves.\<close>

definition verify_stage ::
  "checker \<Rightarrow> verifier \<Rightarrow> debug_result \<Rightarrow> error + 'r step_entry list \<times> verifier" where
  "verify_stage pc v dr =
     (case code_changes dr of
        None \<Rightarrow> Inr ([], v)
      | Some c \<Rightarrow>
          (if c \<noteq> [] then
             (case verify_change pc v c of
                Inl e \<Rightarrow> Inl e
              | Inr (verification, v') \<Rightarrow>
                  Inr ([\<lparr>step = ''verify'', result = Verification verification\<rparr>], v'))
           else Inr ([], v)))"

text \<open>
  Step 4 of \<^verbatim>\<open>handle_failure\<close>: \<^verbatim>\<open>if pattern:\<close> is false on \<^verbatim>\<open>None\<close> and on the empty
  string; the target is \<^verbatim>\<open>failure.context.get("target", "system")\<close>.
\<close>

definition healing_stage ::
  "template \<Rightarrow> pattern_application list \<Rightarrow> failure
     \<Rightarrow> error + 'r step_entry list \<times> pattern_application list" where
  "healing_stage tpl applied f =
     (case determine_healing_pattern f of
        Inl e \<Rightarrow> Inl e
      | Inr None \<Rightarrow> Inr ([], applied)
      | Inr (Some pat) \<Rightarrow>
          (if pat \<noteq> [] then
             (case apply_pattern tpl applied pat (dict_get (fcontext f) ''target'' (Str ''system'')) of
                Inl e \<Rightarrow> Inl e
              | Inr (healing_result, applied') \<Rightarrow>
                  Inr ([\<lparr>step = ''self_healing'', result = Healing_result healing_result\<rparr>],
                       applied'))
           else Inr ([], applied)))"

text \<open>
  \<^verbatim>\<open>handle_failure\<close>. The dictionary of the failure is taken before the debugger runs;
  the later stages see the failure as the debugger has left it. When an exception leaves
  the function, the model gives the exception alone.
\<close>

definition handle_failure ::
  "debugger \<Rightarrow> checker \<Rightarrow> (failure \<Rightarrow> error + string) \<Rightarrow> (failure \<Rightarrow> error + 'r) \<Rightarrow> template
     \<Rightarrow> protocol \<Rightarrow> failure \<Rightarrow> error + 'r protocol_result \<times> protocol" where
  "handle_failure dbg pc generate_from_failure run_evaluation tpl st f =
     (case dbg (debugger_fixes st) f of
        Inl e \<Rightarrow> Inl e
      | Inr (dr, fixes', f') \<Rightarrow>
          (case verify_stage pc (verifier_state st) dr of
             Inl e \<Rightarrow> Inl e
           | Inr (verify_steps, v') \<Rightarrow>
               (case generate_from_failure f' of
                  Inl e \<Rightarrow> Inl e
                | Inr test_file \<Rightarrow>
                    (case healing_stage tpl (applied_patterns st) f' of
                       Inl e \<Rightarrow> Inl e
                     | Inr (healing_steps, applied') \<Rightarrow>
                         (case run_evaluation f' of
                            Inl e \<Rightarrow> Inl e
                          | Inr eval_result \<Rightarrow>
                              Inr (\<lparr>failure_dict = f,
                                    steps =
                                      [\<lparr>step = ''debug'', result = Debug_result dr\<rparr>]
                                      @ verify_steps
                                      @ [\<lparr>step = ''regression_test'', result = Test_file test_file\<rparr>]
                                      @ healing_steps
                                      @ [\<lparr>step = ''evaluation'', result = Evaluation eval_result\<rparr>]\<rparr>,
                                   st\<lparr>debugger_fixes := fixes', verifier_state := v',
                                      applied_patterns := applied'\<rparr>))))))"

text \<open>The names of the steps of a result, and the patterns of its self-healing steps.\<close>

definition step_names :: "'r protocol_result \<Rightarrow> string list" where
  "step_names res = map step (steps res)"

fun healing_patterns :: "'r step_entry list \<Rightarrow> string list" where
  "healing_patterns [] = []"
| "healing_patterns (s # ss) =
     (case result s of
        Healing_result h \<Rightarrow> pattern h # healing_patterns ss
      | _ \<Rightarrow> healing_patterns ss)"

text \<open>
  A template for running the functions on concrete inputs: the name of the literal,
  followed by the interpolated values.
\<close>

definition sample_template :: template where
  "sample_template name args = name @ concat (map (\<lambda>v. CHR '' '' # py_str v) args)"

text \<open>
  Collaborators for running \<open>handle_failure\<close> on concrete inputs: a debugger that proposes
  no change, a regression test generator that names the file after the type of the failure
  (the source adds a hash of the description), and an evaluation that reports the name of
  its suite.
\<close>

fun failure_type_value :: "failure_type \<Rightarrow> string" where
  "failure_type_value MCP_ERROR = ''mcp_error''"
| "failure_type_value MISSING_TOOL = ''missing_tool''"
| "failure_type_value UNCLEAR_DOCS = ''unclear_docs''"
| "failure_type_value RUNTIME_ERROR = ''runtime_error''"
| "failure_type_value VALIDATION_ERROR = ''validation_error''"

definition no_change_debugger :: debugger where
  "no_change_debugger fixes f =
     Inr (\<lparr>issue = description f, solution = ''No change proposed'', code_changes = None\<rparr>,
          fixes, f)"

definition sample_generate :: "failure \<Rightarrow> error + string" where
  "sample_generate f = Inr (''tests/regression/test_'' @ failure_type_value (ftype f) @ ''.py'')"

definition sample_evaluation :: "failure \<Rightarrow> error + string" where
  "sample_evaluation f = Inr (''fix_'' @ failure_type_value (ftype f))"

section \<open>Properties of the verifier\<close>

lemma distinct_determine_checks: "distinct (determine_checks a change)"
  by (auto simp: determine_checks_def)

lemma run_checks_Inr:
  "run_checks pc change cs acc = Inr rs \<Longrightarrow> distinct cs \<Longrightarrow> set cs \<inter> fst ` set acc = {} \<Longrightarrow>
     rs = acc @ map (\<lambda>c. (c, projr (pc c change))) cs \<and> (\<forall>c\<in>set cs. \<not> isl (pc c change))"
proof (induction cs arbitrary: acc)
  case Nil
  then show ?case by simp
next
  case (Cons c cs)
  from Cons.prems(1) obtain r where r: "pc c change = Inr r"
    and rest: "run_checks pc change cs (AList.update c r acc) = Inr rs"
    by (auto split: sum.splits)
  have notin: "c \<notin> fst ` set acc" using Cons.prems(3) by auto
  then have upd: "AList.update c r acc = acc @ [(c, r)]"
    by (induction acc) auto
  have "set cs \<inter> fst ` set (AList.update c r acc) = {}"
    using Cons.prems(2,3) by (auto simp: upd)
  with Cons.IH[OF rest] Cons.prems(2)
  have "rs = AList.update c r acc @ map (\<lambda>c. (c, projr (pc c change))) cs
        \<and> (\<forall>c\<in>set cs. \<not> isl (pc c change))" by simp
  then show ?case using r by (simp add: upd)
qed

lemma run_checks_raises:
  "\<exists>c\<in>set cs. isl (pc c change) \<Longrightarrow> isl (run_checks pc change cs acc)"
  by (induction cs arbitrary: acc) (auto split: sum.splits)

lemma run_checks_returns:
  "\<forall>c\<in>set cs. \<not> isl (pc c change) \<Longrightarrow> \<not> isl (run_checks pc change cs acc)"
  by (induction cs arbitrary: acc) (auto split: sum.splits)

lemma execute_verification_Inr:
  assumes "execute_verification pc (create_verification_task a change) = Inr r"
  shows "result_agent_id r = agent_id a"
    and "results r = map (\<lambda>c. (c, projr (pc c change))) (determine_checks a change)"
    and "overall r = checks_pass pc change a"
    and "\<forall>c\<in>set (determine_checks a change). \<not> isl (pc c change)"
proof -
  from assms obtain rs where rs: "run_checks pc change (determine_checks a change) [] = Inr rs"
    and r: "r = \<lparr>result_agent_id = agent_id a, results = rs,
                 overall = list_all (\<lambda>(c, r). passed r) rs\<rparr>"
    by (auto simp: execute_verification_def create_verification_task_def split: sum.splits)
  from run_checks_Inr[OF rs distinct_determine_checks]
  have eq: "rs = map (\<lambda>c. (c, projr (pc c change))) (determine_checks a change)"
    and ok: "\<forall>c\<in>set (determine_checks a change). \<not> isl (pc c change)" by simp_all
  show "result_agent_id r = agent_id a" using r by simp
  show "results r = map (\<lambda>c. (c, projr (pc c change))) (determine_checks a change)"
    using r eq by simp
  show "\<forall>c\<in>set (determine_checks a change). \<not> isl (pc c change)" by (rule ok)
  have "list_all (\<lambda>(c, r). passed r) rs
        = list_all (\<lambda>c. passed (projr (pc c change))) (determine_checks a change)"
    by (simp add: eq list_all_iff)
  also have "\<dots> = checks_pass pc change a"
    unfolding checks_pass_def list_all_iff using ok
    by (auto split: sum.splits)
  finally show "overall r = checks_pass pc change a" using r by simp
qed

lemma select_tasks_Inr:
  "select_tasks as change = Inr ts \<Longrightarrow>
     ts = map (\<lambda>a. create_verification_task a change)
            (filter (\<lambda>a. can_verify a change = Inr True) as)"
  by (induction as arbitrary: ts) (auto split: sum.splits)

lemma select_tasks_returns:
  "\<forall>a\<in>set as. \<not> isl (can_verify a change) \<Longrightarrow> \<not> isl (select_tasks as change)"
  by (induction as) (auto split: sum.splits)

lemma can_verify_Str:
  "dict_get change ''type'' (Str []) = Str kind \<Longrightarrow>
     can_verify a change = Inr (\<exists>cap\<in>set (capabilities a). sublist cap kind)"
  by (simp add: can_verify_def list_ex_iff)

lemma gather_Inr:
  "gather pc ts = Inr rs \<Longrightarrow> list_all2 (\<lambda>t r. execute_verification pc t = Inr r) ts rs"
  by (induction ts arbitrary: rs) (auto split: sum.splits)

lemma gather_raises:
  "t \<in> set ts \<Longrightarrow> isl (execute_verification pc t) \<Longrightarrow> isl (gather pc ts)"
  by (induction ts) (auto split: sum.splits)

lemma gather_returns:
  "\<forall>t\<in>set ts. \<not> isl (execute_verification pc t) \<Longrightarrow>
     gather pc ts = Inr (map (\<lambda>t. projr (execute_verification pc t)) ts)"
  by (induction ts) (auto split: sum.splits)

lemma verify_change_Inr:
  assumes "verify_change pc v change = Inr (vd, v')"
  shows "\<exists>rs. list_all2 (\<lambda>a r. execute_verification pc (create_verification_task a change) = Inr r)
                 (applicable_agents v change) rs
            \<and> vd = aggregate_results rs
            \<and> v' = v\<lparr>verification_results := verification_results v
                       @ [\<lparr>rec_change = change, rec_results = rs, rec_aggregated = vd\<rparr>]\<rparr>"
proof -
  from assms obtain ts rs where ts: "select_tasks (agents v) change = Inr ts"
    and rs: "gather pc ts = Inr rs"
    and vd: "vd = aggregate_results rs"
    and v': "v' = v\<lparr>verification_results := verification_results v
                       @ [\<lparr>rec_change = change, rec_results = rs, rec_aggregated = vd\<rparr>]\<rparr>"
    by (auto simp: verify_change_def Let_def split: sum.splits)
  have "list_all2 (\<lambda>a r. execute_verification pc (create_verification_task a change) = Inr r)
                 (applicable_agents v change) rs"
    using gather_Inr[OF rs] unfolding select_tasks_Inr[OF ts] applicable_agents_def
    by (simp add: list_all2_map1)
  with vd v' show ?thesis by blast
qed

lemma overall_count:
  assumes "list_all2 (\<lambda>a r. execute_verification pc (create_verification_task a change) = Inr r) as rs"
  shows "length (filter overall rs) = length (filter (checks_pass pc change) as)"
  using assms
  by (induction as rs rule: list_all2_induct) (auto simp: execute_verification_Inr(3))

lemma confidence_one:
  "rs \<noteq> [] \<Longrightarrow>
   ((of_nat (length (filter P rs)) :: rat) / of_nat (length rs) = 1) = list_all P rs"
proof -
  assume ne: "rs \<noteq> []"
  have "(length (filter P rs) = length rs) = list_all P rs"
  proof (induction rs)
    case Nil
    show ?case by simp
  next
    case (Cons x xs)
    have "length (filter P xs) \<noteq> Suc (length xs)"
      using length_filter_le[of P xs] by arith
    then show ?case using Cons.IH by auto
  qed
  then have "(length rs = length (filter P rs)) = list_all P rs" by metis
  then show ?thesis using ne by simp
qed

text \<open>
  C3. Whenever \<open>verify_change\<close> returns a verdict with \<open>agent_count > 0\<close>, the count is
  the number of agents that can verify the change, the confidence is the number of those
  agents all of whose checks passed, divided by the count, and \<open>verified\<close> holds exactly
  when the confidence is 1.
\<close>

theorem confidence_is_pass_ratio:
  assumes "verify_change pc v change = Inr (vd, v')" and "0 < agent_count vd"
  shows "agent_count vd = length (applicable_agents v change)
       \<and> confidence vd
           = of_nat (length (filter (checks_pass pc change) (applicable_agents v change)))
               / of_nat (agent_count vd)
       \<and> (verified vd \<longleftrightarrow> confidence vd = 1)"
proof -
  from verify_change_Inr[OF assms(1)] obtain rs
    where l: "list_all2 (\<lambda>a r. execute_verification pc (create_verification_task a change) = Inr r)
                 (applicable_agents v change) rs"
      and vd: "vd = aggregate_results rs" by blast
  have ne: "rs \<noteq> []" using assms(2) vd by (auto simp: aggregate_results_def)
  have len: "length rs = length (applicable_agents v change)"
    using l by (simp add: list_all2_lengthD)
  show ?thesis
    using ne len overall_count[OF l] confidence_one[OF ne, of overall]
    by (simp add: vd aggregate_results_def)
qed


lemma default_agents:
  "agents (setup_verification_agents new_verifier) =
     [\<lparr>agent_id = ''code_agent'', capabilities = [''code'', ''syntax'', ''style''], status = ''active''\<rparr>,
      \<lparr>agent_id = ''security_agent'', capabilities = [''security'', ''permissions''], status = ''active''\<rparr>,
      \<lparr>agent_id = ''performance_agent'', capabilities = [''performance'', ''efficiency''], status = ''active''\<rparr>]"
  by (simp add: setup_verification_agents_def register_agent_def new_verifier_def)

theorem confidence_is_pass_ratio_witness:
  "verify_change style_failing_check (setup_verification_agents new_verifier)
       [(''type'', Str ''code_security''), (''file'', Str ''auth_handler.py'')]
     = Inr (\<lparr>verified = False, agent_count = 2,
             issues = [\<lparr>issue_agent = ''code_agent'', issue_check = ''style'',
                        issue_details = ''Line too long''\<rparr>],
             confidence = 1 / 2\<rparr>,
            (setup_verification_agents new_verifier)
              \<lparr>verification_results :=
                 [\<lparr>rec_change = [(''type'', Str ''code_security''), (''file'', Str ''auth_handler.py'')],
                   rec_results =
                     [\<lparr>result_agent_id = ''code_agent'',
                       results = [(''syntax'', \<lparr>passed = True, details = ''Syntax valid''\<rparr>),
                                  (''style'', \<lparr>passed = False, details = ''Line too long''\<rparr>),
                                  (''complexity'', \<lparr>passed = True, details = ''Complexity acceptable''\<rparr>)],
                       overall = False\<rparr>,
                      \<lparr>result_agent_id = ''security_agent'',
                       results = [(''vulnerabilities'', \<lparr>passed = True, details = ''No vulnerabilities found''\<rparr>),
                                  (''permissions'', \<lparr>passed = True, details = ''Permissions appropriate''\<rparr>)],
                       overall = True\<rparr>],
                   rec_aggregated =
                     \<lparr>verified = False, agent_count = 2,
                      issues = [\<lparr>issue_agent = ''code_agent'', issue_check = ''style'',
                                 issue_details = ''Line too long''\<rparr>],
                      confidence = 1 / 2\<rparr>\<rparr>]\<rparr>)
   \<and> (0::nat) < 2
   \<and> length (applicable_agents (setup_verification_agents new_verifier)
                [(''type'', Str ''code_security''), (''file'', Str ''auth_handler.py'')]) = 2
   \<and> length (filter (checks_pass style_failing_check
                        [(''type'', Str ''code_security''), (''file'', Str ''auth_handler.py'')])
               (applicable_agents (setup_verification_agents new_verifier)
                  [(''type'', Str ''code_security''), (''file'', Str ''auth_handler.py'')])) = 1"
proof -
  let ?c = "[(''type'', Str ''code_security''), (''file'', Str ''auth_handler.py'')]"
  let ?vd = "\<lparr>verified = False, agent_count = 2,
             issues = [\<lparr>issue_agent = ''code_agent'', issue_check = ''style'',
                        issue_details = ''Line too long''\<rparr>],
             confidence = 1 / 2\<rparr>"
  have run: "verify_change style_failing_check (setup_verification_agents new_verifier) ?c
     = Inr (?vd,
            (setup_verification_agents new_verifier)
              \<lparr>verification_results :=
                 [\<lparr>rec_change = ?c,
                   rec_results =
                     [\<lparr>result_agent_id = ''code_agent'',
                       results = [(''syntax'', \<lparr>passed = True, details = ''Syntax valid''\<rparr>),
                                  (''style'', \<lparr>passed = False, details = ''Line too long''\<rparr>),
                                  (''complexity'', \<lparr>passed = True, details = ''Complexity acceptable''\<rparr>)],
                       overall = False\<rparr>,
                      \<lparr>result_agent_id = ''security_agent'',
                       results = [(''vulnerabilities'', \<lparr>passed = True, details = ''No vulnerabilities found''\<rparr>),
                                  (''permissions'', \<lparr>passed = True, details = ''Permissions appropriate''\<rparr>)],
                       overall = True\<rparr>],
                   rec_aggregated = ?vd\<rparr>]\<rparr>)"
    by code_simp
  have pos: "0 < agent_count ?vd" by simp
  from confidence_is_pass_ratio[OF run pos] run show ?thesis by simp
qed

lemma verify_change_none_applicable:
  assumes "\<forall>a\<in>set (agents v). can_verify a change = Inr False"
  shows "verify_change pc v change
         = Inr (\<lparr>verified = True, agent_count = 0, issues = [], confidence = 0\<rparr>,
                v\<lparr>verification_results := verification_results v
                     @ [\<lparr>rec_change = change, rec_results = [],
                         rec_aggregated =
                           \<lparr>verified = True, agent_count = 0, issues = [], confidence = 0\<rparr>\<rparr>]\<rparr>)"
proof -
  have "select_tasks as change = Inr []" if "\<forall>a\<in>set as. can_verify a change = Inr False" for as
    using that by (induction as) auto
  with assms have "select_tasks (agents v) change = Inr []" by blast
  then show ?thesis by (simp add: verify_change_def aggregate_results_def Let_def)
qed

text \<open>
  C1. With no applicable checker the verdict has \<open>agent_count = 0\<close> and
  \<open>confidence = 0\<close>, but \<open>verified\<close> is true, not false: \<^verbatim>\<open>all(...)\<close> over no
  result is true. Here the three default agents meet the change that
  \<^verbatim>\<open>improve_documentation\<close> submits, of type \<open>documentation\<close>.
\<close>

theorem verify_change_no_applicable_checker:
  "map_sum id fst
     (verify_change perform_check (setup_verification_agents new_verifier)
        [(''type'', Str ''documentation''), (''original'', Str ''docs/api.md''),
         (''improved'', Str ''docs/api_improved.md'')])
   = Inr \<lparr>verified = True, agent_count = 0, issues = [], confidence = 0\<rparr>"
  by code_simp

text \<open>
  C5. On a change whose type is a string, an agent can verify exactly when one of its
  capabilities occurs in the type as a contiguous run of the same characters. For the type
  \<open>code_security\<close> and the three default agents, the code agent and the security agent
  can verify and the performance agent cannot; and when the five checks of those two
  agents pass, the verdict is verified, with two agents, confidence 1 and no issue.
\<close>

theorem can_verify_iff_capability_substring:
  assumes "dict_get change ''type'' (Str []) = Str kind"
  shows "(can_verify a change = Inr True \<longleftrightarrow> (\<exists>cap\<in>set (capabilities a). sublist cap kind))
       \<and> (can_verify a change = Inr False \<longleftrightarrow> \<not> (\<exists>cap\<in>set (capabilities a). sublist cap kind))
       \<and> (kind = ''code_security'' \<longrightarrow>
            map agent_id (applicable_agents (setup_verification_agents new_verifier) change)
              = [''code_agent'', ''security_agent'']
          \<and> ((\<forall>c\<in>set [''syntax'', ''style'', ''complexity'', ''vulnerabilities'', ''permissions''].
                 \<exists>r. pc c change = Inr r \<and> passed r)
              \<longrightarrow> (\<exists>v'. verify_change pc (setup_verification_agents new_verifier) change
                         = Inr (\<lparr>verified = True, agent_count = 2, issues = [], confidence = 1\<rparr>,
                                v'))))"
proof (intro conjI impI)
  show "can_verify a change = Inr True \<longleftrightarrow> (\<exists>cap\<in>set (capabilities a). sublist cap kind)"
    by (simp add: can_verify_Str[OF assms])
  show "can_verify a change = Inr False \<longleftrightarrow> \<not> (\<exists>cap\<in>set (capabilities a). sublist cap kind)"
    by (simp add: can_verify_Str[OF assms])
next
  assume k: "kind = ''code_security''"
  have app: "applicable_agents (setup_verification_agents new_verifier) change
      = [\<lparr>agent_id = ''code_agent'', capabilities = [''code'', ''syntax'', ''style''],
          status = ''active''\<rparr>,
         \<lparr>agent_id = ''security_agent'', capabilities = [''security'', ''permissions''],
          status = ''active''\<rparr>]"
    by (simp add: applicable_agents_def default_agents can_verify_Str[OF assms] k sublist_code)
  show "map agent_id (applicable_agents (setup_verification_agents new_verifier) change)
          = [''code_agent'', ''security_agent'']"
    by (simp add: app)
  assume ok: "\<forall>c\<in>set [''syntax'', ''style'', ''complexity'', ''vulnerabilities'', ''permissions''].
                 \<exists>r. pc c change = Inr r \<and> passed r"
  then obtain r1 r2 r3 r4 r5 where
    r: "pc ''syntax'' change = Inr r1" "pc ''style'' change = Inr r2"
       "pc ''complexity'' change = Inr r3" "pc ''vulnerabilities'' change = Inr r4"
       "pc ''permissions'' change = Inr r5"
    and p: "passed r1" "passed r2" "passed r3" "passed r4" "passed r5"
    by auto
  have sel: "select_tasks (agents (setup_verification_agents new_verifier)) change
      = Inr [\<lparr>task_agent_id = ''code_agent'', task_change = change,
              checks = [''syntax'', ''style'', ''complexity'']\<rparr>,
             \<lparr>task_agent_id = ''security_agent'', task_change = change,
              checks = [''vulnerabilities'', ''permissions'']\<rparr>]"
    by (simp add: default_agents can_verify_Str[OF assms] k sublist_code
        create_verification_task_def determine_checks_def)
  show "\<exists>v'. verify_change pc (setup_verification_agents new_verifier) change
          = Inr (\<lparr>verified = True, agent_count = 2, issues = [], confidence = 1\<rparr>, v')"
    by (simp add: verify_change_def sel execute_verification_def r p aggregate_results_def
        issues_of_def Let_def)
qed

theorem can_verify_iff_capability_substring_witness:
  "dict_get [(''type'', Str ''code_security''), (''file'', Str ''auth_handler.py'')] ''type'' (Str [])
     = Str ''code_security''
   \<and> can_verify \<lparr>agent_id = ''security_agent'', capabilities = [''security'', ''permissions''],
                  status = ''active''\<rparr>
        [(''type'', Str ''code_security''), (''file'', Str ''auth_handler.py'')] = Inr True
   \<and> sublist ''security'' ''code_security''
   \<and> list_all
         (\<lambda>c. \<exists>r. perform_check c [(''type'', Str ''code_security''), (''file'', Str ''auth_handler.py'')]
                     = Inr r \<and> passed r)
         [''syntax'', ''style'', ''complexity'', ''vulnerabilities'', ''permissions'']
   \<and> (\<exists>v'. verify_change perform_check (setup_verification_agents new_verifier)
               [(''type'', Str ''code_security''), (''file'', Str ''auth_handler.py'')]
             = Inr (\<lparr>verified = True, agent_count = 2, issues = [], confidence = 1\<rparr>, v'))"
proof -
  let ?c = "[(''type'', Str ''code_security''), (''file'', Str ''auth_handler.py'')]"
  have h: "dict_get ?c ''type'' (Str []) = Str ''code_security''"
    by (simp add: dict_get_def)
  have s: "sublist ''security'' ''code_security''" by (simp add: sublist_code)
  have ok: "\<forall>c\<in>set [''syntax'', ''style'', ''complexity'', ''vulnerabilities'', ''permissions''].
         \<exists>r. perform_check c ?c = Inr r \<and> passed r"
    by (simp add: perform_check_def check_table_def check_syntax_def check_style_def
        check_complexity_def check_vulnerabilities_def check_permissions_def)
  from can_verify_iff_capability_substring[OF h, of
      "\<lparr>agent_id = ''security_agent'', capabilities = [''security'', ''permissions''],
        status = ''active''\<rparr>" perform_check] h s ok
  show ?thesis by (simp add: list_all_iff)
qed

lemma select_tasks_Str:
  assumes "dict_get change ''type'' (Str []) = Str kind"
  shows "select_tasks as change
         = Inr (map (\<lambda>a. create_verification_task a change)
                  (filter (\<lambda>a. can_verify a change = Inr True) as))"
  by (induction as) (auto simp: can_verify_Str[OF assms])

lemma execute_verification_returns:
  assumes "\<forall>c\<in>set (determine_checks a change). \<not> isl (pc c change)"
  shows "execute_verification pc (create_verification_task a change)
         = Inr \<lparr>result_agent_id = agent_id a,
                results = map (\<lambda>c. (c, projr (pc c change))) (determine_checks a change),
                overall = checks_pass pc change a\<rparr>"
proof -
  from run_checks_returns[where pc = pc and change = change
      and cs = "determine_checks a change" and acc = "[]"] assms
  obtain rs where rs: "run_checks pc change (determine_checks a change) [] = Inr rs"
    by (cases "run_checks pc change (determine_checks a change) []") auto
  then obtain r where r: "execute_verification pc (create_verification_task a change) = Inr r"
    by (simp add: execute_verification_def create_verification_task_def)
  from execute_verification_Inr(1,2,3)[OF r] r show ?thesis by simp
qed

lemma execute_verification_raises:
  assumes "c \<in> set (determine_checks a change)" and "isl (pc c change)"
  shows "isl (execute_verification pc (create_verification_task a change))"
proof -
  have "isl (run_checks pc change (determine_checks a change) [])"
    using assms
      run_checks_raises[where pc = pc and change = change
        and cs = "determine_checks a change" and acc = "[]"]
    by blast
  then show ?thesis
    by (auto simp: execute_verification_def create_verification_task_def split: sum.splits)
qed

lemma gather_returns_results:
  assumes "\<forall>a\<in>set as. \<forall>c\<in>set (determine_checks a change). \<not> isl (pc c change)"
  shows "gather pc (map (\<lambda>a. create_verification_task a change) as)
         = Inr (map (\<lambda>a. \<lparr>result_agent_id = agent_id a,
                              results = map (\<lambda>c. (c, projr (pc c change)))
                                          (determine_checks a change),
                              overall = checks_pass pc change a\<rparr>) as)"
  using assms
proof (induction as)
  case Nil
  show ?case by simp
next
  case (Cons a as)
  have "\<forall>c\<in>set (determine_checks a change). \<not> isl (pc c change)"
    using Cons.prems by simp
  from execute_verification_returns[where pc = pc and change = change and a = a] this
  have "execute_verification pc (create_verification_task a change)
         = Inr \<lparr>result_agent_id = agent_id a,
                results = map (\<lambda>c. (c, projr (pc c change))) (determine_checks a change),
                overall = checks_pass pc change a\<rparr>" by blast
  moreover have "gather pc (map (\<lambda>a. create_verification_task a change) as)
         = Inr (map (\<lambda>a. \<lparr>result_agent_id = agent_id a,
                              results = map (\<lambda>c. (c, projr (pc c change)))
                                          (determine_checks a change),
                              overall = checks_pass pc change a\<rparr>) as)"
    using Cons by simp
  ultimately show ?case by simp
qed

text \<open>
  C2. The claim fails: a check that raises is not turned into a failed result. The syntax
  check of the code agent raises, and \<open>verify_change\<close> raises the same exception: there
  is no verdict and nothing is recorded, for the security agent either, whose result is
  recorded when it is the only agent registered.
\<close>

theorem raising_check_aborts_verify_change:
  "verify_change syntax_raising_check (setup_verification_agents new_verifier)
      [(''type'', Str ''code_security''), (''file'', Str ''auth_handler.py'')]
     = Inl (OtherError ''parser crashed'')
   \<and> map_sum id (rec_results \<circ> last \<circ> verification_results \<circ> snd)
       (verify_change syntax_raising_check
          (register_agent new_verifier ''security_agent'' [''security'', ''permissions''])
          [(''type'', Str ''code_security''), (''file'', Str ''auth_handler.py'')])
     = Inr [\<lparr>result_agent_id = ''security_agent'',
             results = [(''vulnerabilities'', \<lparr>passed = True, details = ''No vulnerabilities found''\<rparr>),
                        (''permissions'', \<lparr>passed = True, details = ''Permissions appropriate''\<rparr>)],
             overall = True\<rparr>]"
  by code_simp

text \<open>
  C2, amended. On a change whose type is a string: if a check of some agent that can
  verify raises, \<open>verify_change\<close> raises; if none does, \<open>verify_change\<close> returns, and
  the result it records for each agent that can verify is the one that agent's checks
  give on the change, whatever the other agents are.
\<close>

theorem raising_check_propagates:
  assumes "dict_get change ''type'' (Str []) = Str kind"
  shows "((\<exists>a\<in>set (applicable_agents v change). \<exists>c\<in>set (determine_checks a change).
              isl (pc c change))
            \<longrightarrow> isl (verify_change pc v change))
       \<and> ((\<forall>a\<in>set (applicable_agents v change). \<forall>c\<in>set (determine_checks a change).
              \<not> isl (pc c change))
            \<longrightarrow> (\<exists>vd v'. verify_change pc v change = Inr (vd, v')
                  \<and> rec_results (last (verification_results v'))
                    = map (\<lambda>a. \<lparr>result_agent_id = agent_id a,
                                 results = map (\<lambda>c. (c, projr (pc c change)))
                                             (determine_checks a change),
                                 overall = checks_pass pc change a\<rparr>)
                        (applicable_agents v change)))"
proof (intro conjI impI)
  have sel: "select_tasks (agents v) change
             = Inr (map (\<lambda>a. create_verification_task a change) (applicable_agents v change))"
    by (simp add: select_tasks_Str[OF assms] applicable_agents_def)
  {
    assume "\<exists>a\<in>set (applicable_agents v change). \<exists>c\<in>set (determine_checks a change).
              isl (pc c change)"
    then obtain a c where a: "a \<in> set (applicable_agents v change)"
      and c: "c \<in> set (determine_checks a change)" and e: "isl (pc c change)" by blast
    have "isl (gather pc (map (\<lambda>a. create_verification_task a change)
                            (applicable_agents v change)))"
      using a c e
        execute_verification_raises[where pc = pc and change = change and a = a and c = c]
        gather_raises[where pc = pc and t = "create_verification_task a change"
          and ts = "map (\<lambda>a. create_verification_task a change) (applicable_agents v change)"]
      by auto
    then show "isl (verify_change pc v change)"
      by (auto simp: verify_change_def sel split: sum.splits)
  }
  {
    assume ok: "\<forall>a\<in>set (applicable_agents v change). \<forall>c\<in>set (determine_checks a change).
              \<not> isl (pc c change)"
    from gather_returns_results[where pc = pc and change = change
        and as = "applicable_agents v change"] ok
    have "gather pc (map (\<lambda>a. create_verification_task a change) (applicable_agents v change))
          = Inr (map (\<lambda>a. \<lparr>result_agent_id = agent_id a,
                                 results = map (\<lambda>c. (c, projr (pc c change)))
                                             (determine_checks a change),
                                 overall = checks_pass pc change a\<rparr>)
                        (applicable_agents v change))" by blast
    then show "\<exists>vd v'. verify_change pc v change = Inr (vd, v')
                  \<and> rec_results (last (verification_results v'))
                    = map (\<lambda>a. \<lparr>result_agent_id = agent_id a,
                                 results = map (\<lambda>c. (c, projr (pc c change)))
                                             (determine_checks a change),
                                 overall = checks_pass pc change a\<rparr>)
                        (applicable_agents v change)"
      by (simp add: verify_change_def sel Let_def)
  }
qed

theorem raising_check_propagates_witness:
  "dict_get [(''type'', Str ''code_security''), (''file'', Str ''auth_handler.py'')] ''type'' (Str [])
     = Str ''code_security''
   \<and> \<lparr>agent_id = ''code_agent'', capabilities = [''code'', ''syntax'', ''style''],
       status = ''active''\<rparr>
       \<in> set (applicable_agents (setup_verification_agents new_verifier)
                [(''type'', Str ''code_security''), (''file'', Str ''auth_handler.py'')])
   \<and> ''syntax'' \<in> set (determine_checks
         \<lparr>agent_id = ''code_agent'', capabilities = [''code'', ''syntax'', ''style''],
          status = ''active''\<rparr>
         [(''type'', Str ''code_security''), (''file'', Str ''auth_handler.py'')])
   \<and> isl (syntax_raising_check ''syntax''
              [(''type'', Str ''code_security''), (''file'', Str ''auth_handler.py'')])
   \<and> isl (verify_change syntax_raising_check (setup_verification_agents new_verifier)
              [(''type'', Str ''code_security''), (''file'', Str ''auth_handler.py'')])
   \<and> list_all
         (\<lambda>a. list_all
                (\<lambda>c. \<not> isl (perform_check c
                                [(''type'', Str ''code_security''), (''file'', Str ''auth_handler.py'')]))
                (determine_checks a
                   [(''type'', Str ''code_security''), (''file'', Str ''auth_handler.py'')]))
         (applicable_agents (setup_verification_agents new_verifier)
            [(''type'', Str ''code_security''), (''file'', Str ''auth_handler.py'')])
   \<and> (\<exists>vd v'. verify_change perform_check (setup_verification_agents new_verifier)
                  [(''type'', Str ''code_security''), (''file'', Str ''auth_handler.py'')]
                = Inr (vd, v')
          \<and> rec_results (last (verification_results v'))
            = [\<lparr>result_agent_id = ''code_agent'',
                results = [(''syntax'', \<lparr>passed = True, details = ''Syntax valid''\<rparr>),
                           (''style'', \<lparr>passed = True, details = ''Style compliant''\<rparr>),
                           (''complexity'', \<lparr>passed = True, details = ''Complexity acceptable''\<rparr>)],
                overall = True\<rparr>,
               \<lparr>result_agent_id = ''security_agent'',
                results = [(''vulnerabilities'', \<lparr>passed = True, details = ''No vulnerabilities found''\<rparr>),
                           (''permissions'', \<lparr>passed = True, details = ''Permissions appropriate''\<rparr>)],
                overall = True\<rparr>])"
proof -
  let ?c = "[(''type'', Str ''code_security''), (''file'', Str ''auth_handler.py'')]"
  let ?v = "setup_verification_agents new_verifier"
  let ?code = "\<lparr>agent_id = ''code_agent'', capabilities = [''code'', ''syntax'', ''style''],
       status = ''active''\<rparr>"
  let ?sec = "\<lparr>agent_id = ''security_agent'', capabilities = [''security'', ''permissions''],
       status = ''active''\<rparr>"
  have h: "dict_get ?c ''type'' (Str []) = Str ''code_security''"
    by (simp add: dict_get_def)
  have app: "applicable_agents ?v ?c = [?code, ?sec]"
    by (simp add: applicable_agents_def default_agents can_verify_def dict_get_def sublist_code)
  have dc: "determine_checks ?code ?c = [''syntax'', ''style'', ''complexity'']"
    "determine_checks ?sec ?c = [''vulnerabilities'', ''permissions'']"
    by (simp_all add: determine_checks_def)
  have raises: "isl (syntax_raising_check ''syntax'' ?c)"
    by (simp add: syntax_raising_check_def)
  have returns: "\<not> isl (perform_check c ?c)" for c
    by (simp add: perform_check_def)
  have pcs: "projr (perform_check ''syntax'' ?c) = \<lparr>passed = True, details = ''Syntax valid''\<rparr>"
    "projr (perform_check ''style'' ?c) = \<lparr>passed = True, details = ''Style compliant''\<rparr>"
    "projr (perform_check ''complexity'' ?c) = \<lparr>passed = True, details = ''Complexity acceptable''\<rparr>"
    "projr (perform_check ''vulnerabilities'' ?c)
       = \<lparr>passed = True, details = ''No vulnerabilities found''\<rparr>"
    "projr (perform_check ''permissions'' ?c) = \<lparr>passed = True, details = ''Permissions appropriate''\<rparr>"
    by (simp_all add: perform_check_def check_table_def check_syntax_def check_style_def
        check_complexity_def check_vulnerabilities_def check_permissions_def)
  have cp: "checks_pass perform_check ?c ?code" "checks_pass perform_check ?c ?sec"
    by (simp_all add: checks_pass_def dc perform_check_def check_table_def check_syntax_def
        check_style_def check_complexity_def check_vulnerabilities_def check_permissions_def)
  from raising_check_propagates[OF h, of ?v syntax_raising_check] app dc raises
  have a: "isl (verify_change syntax_raising_check ?v ?c)" by simp
  from raising_check_propagates[OF h, of ?v perform_check] returns
  have b: "\<exists>vd v'. verify_change perform_check ?v ?c = Inr (vd, v')
          \<and> rec_results (last (verification_results v'))
            = [\<lparr>result_agent_id = ''code_agent'',
                results = [(''syntax'', \<lparr>passed = True, details = ''Syntax valid''\<rparr>),
                           (''style'', \<lparr>passed = True, details = ''Style compliant''\<rparr>),
                           (''complexity'', \<lparr>passed = True, details = ''Complexity acceptable''\<rparr>)],
                overall = True\<rparr>,
               \<lparr>result_agent_id = ''security_agent'',
                results = [(''vulnerabilities'', \<lparr>passed = True, details = ''No vulnerabilities found''\<rparr>),
                           (''permissions'', \<lparr>passed = True, details = ''Permissions appropriate''\<rparr>)],
                overall = True\<rparr>]"
    by (simp add: app dc pcs cp)
  show ?thesis
    using h a b raises by (simp add: app dc returns)
qed

text \<open>
  C9. An agent with none of the capabilities \<open>code\<close>, \<open>security\<close> and \<open>performance\<close>
  gets an empty list of checks and the result \<open>overall = True\<close>, whatever the check
  implementation. In every call of \<open>verify_change\<close> on a change whose type is a string
  and in which no check raises, the result recorded for such an agent is that one, beside
  the results of the other agents; the verdict is verified exactly when every agent that
  can verify is such an agent or has all its checks passing, and the confidence is the
  number of those agents divided by the number of agents that can verify. When all the
  agents that can verify are such agents, and there is one, the verdict is verified with
  confidence 1.
\<close>

theorem agent_without_checks_passes:
  assumes "dict_get change ''type'' (Str []) = Str kind"
    and "\<forall>a\<in>set (applicable_agents v change). \<forall>c\<in>set (determine_checks a change).
           \<not> isl (pc c change)"
  shows "(no_known_capability b \<longrightarrow>
            determine_checks b change = []
            \<and> execute_verification pc (create_verification_task b change)
                = Inr \<lparr>result_agent_id = agent_id b, results = [], overall = True\<rparr>)
       \<and> (\<exists>vd v'. verify_change pc v change = Inr (vd, v')
            \<and> rec_results (last (verification_results v'))
                = map (\<lambda>a. if no_known_capability a
                            then \<lparr>result_agent_id = agent_id a, results = [], overall = True\<rparr>
                            else \<lparr>result_agent_id = agent_id a,
                                  results = map (\<lambda>c. (c, projr (pc c change)))
                                              (determine_checks a change),
                                  overall = checks_pass pc change a\<rparr>)
                    (applicable_agents v change)
            \<and> agent_count vd = length (applicable_agents v change)
            \<and> (verified vd \<longleftrightarrow>
                  (\<forall>a\<in>set (applicable_agents v change).
                     no_known_capability a \<or> checks_pass pc change a))
            \<and> (applicable_agents v change \<noteq> [] \<longrightarrow>
                  confidence vd
                  = of_nat (length (filter (\<lambda>a. no_known_capability a \<or> checks_pass pc change a)
                                      (applicable_agents v change)))
                    / of_nat (length (applicable_agents v change)))
            \<and> (applicable_agents v change \<noteq> []
                 \<and> (\<forall>a\<in>set (applicable_agents v change). no_known_capability a)
                 \<longrightarrow> verified vd \<and> confidence vd = 1 \<and> issues vd = []))"
proof -
  let ?apps = "applicable_agents v change"
  let ?res = "\<lambda>a. \<lparr>result_agent_id = agent_id a,
                     results = map (\<lambda>c. (c, projr (pc c change))) (determine_checks a change),
                     overall = checks_pass pc change a\<rparr>"
  have dc: "determine_checks a change = []" if "no_known_capability a" for a
    using that by (simp add: determine_checks_def no_known_capability_def)
  have cp: "checks_pass pc change a" if "no_known_capability a" for a
    by (simp add: checks_pass_def dc[OF that])
  have first: "no_known_capability b \<longrightarrow>
            determine_checks b change = []
            \<and> execute_verification pc (create_verification_task b change)
                = Inr \<lparr>result_agent_id = agent_id b, results = [], overall = True\<rparr>"
    by (simp add: dc execute_verification_def create_verification_task_def)
  have sel: "select_tasks (agents v) change
             = Inr (map (\<lambda>a. create_verification_task a change) ?apps)"
    by (simp add: select_tasks_Str[OF assms(1)] applicable_agents_def)
  from gather_returns_results[where pc = pc and change = change and as = ?apps] assms(2)
  have ga: "gather pc (map (\<lambda>a. create_verification_task a change) ?apps)
            = Inr (map ?res ?apps)" by blast
  define vd where "vd = aggregate_results (map ?res ?apps)"
  define v' where "v' = v\<lparr>verification_results := verification_results v
                          @ [\<lparr>rec_change = change, rec_results = map ?res ?apps,
                              rec_aggregated = vd\<rparr>]\<rparr>"
  have run: "verify_change pc v change = Inr (vd, v')"
    by (simp add: verify_change_def sel ga Let_def vd_def v'_def)
  have same: "?res a = (if no_known_capability a
                            then \<lparr>result_agent_id = agent_id a, results = [], overall = True\<rparr>
                            else ?res a)" for a
    by (simp add: dc cp)
  have rec: "rec_results (last (verification_results v'))
                = map (\<lambda>a. if no_known_capability a
                            then \<lparr>result_agent_id = agent_id a, results = [], overall = True\<rparr>
                            else ?res a) ?apps"
    using same by (simp add: v'_def)
  have cnt: "agent_count vd = length ?apps"
    by (simp add: vd_def aggregate_results_def)
  have pass_eq: "(no_known_capability a \<or> checks_pass pc change a) = checks_pass pc change a"
    for a using cp by blast
  have ver: "verified vd \<longleftrightarrow>
               (\<forall>a\<in>set ?apps. no_known_capability a \<or> checks_pass pc change a)"
    by (simp add: vd_def aggregate_results_def list_all_iff pass_eq)
  have conf: "confidence vd
                = of_nat (length (filter (\<lambda>a. no_known_capability a \<or> checks_pass pc change a)
                                    ?apps))
                  / of_nat (length ?apps)" if "?apps \<noteq> []"
    using that by (simp add: vd_def aggregate_results_def filter_map o_def pass_eq)
  have only: "verified vd \<and> confidence vd = 1 \<and> issues vd = []"
    if ne: "?apps \<noteq> []" and all: "\<forall>a\<in>set ?apps. no_known_capability a"
  proof -
    have f: "filter (\<lambda>a. no_known_capability a \<or> checks_pass pc change a) ?apps = ?apps"
      using all by (simp add: filter_id_conv)
    have i: "issues_of (?res a) = []" if "a \<in> set ?apps" for a
      using all that by (simp add: issues_of_def dc)
    have "issues vd = []"
      using i by (simp add: vd_def aggregate_results_def)
    moreover have "verified vd" using all by (simp add: ver)
    moreover have "confidence vd = 1" using ne by (simp add: conf[OF ne] f)
    ultimately show ?thesis by simp
  qed
  from run rec cnt ver conf only
  have "\<exists>vd v'. verify_change pc v change = Inr (vd, v')
            \<and> rec_results (last (verification_results v'))
                = map (\<lambda>a. if no_known_capability a
                            then \<lparr>result_agent_id = agent_id a, results = [], overall = True\<rparr>
                            else ?res a) ?apps
            \<and> agent_count vd = length ?apps
            \<and> (verified vd \<longleftrightarrow>
                  (\<forall>a\<in>set ?apps. no_known_capability a \<or> checks_pass pc change a))
            \<and> (?apps \<noteq> [] \<longrightarrow>
                  confidence vd
                  = of_nat (length (filter (\<lambda>a. no_known_capability a \<or> checks_pass pc change a)
                                      ?apps))
                    / of_nat (length ?apps))
            \<and> (?apps \<noteq> [] \<and> (\<forall>a\<in>set ?apps. no_known_capability a)
                 \<longrightarrow> verified vd \<and> confidence vd = 1 \<and> issues vd = [])"
    by (intro exI[of _ vd] exI[of _ v']) simp
  with first show ?thesis by (rule conjI)
qed

theorem agent_without_checks_passes_witness:
  "dict_get [(''type'', Str ''code_syntax''), (''file'', Str ''parser.py'')] ''type'' (Str [])
     = Str ''code_syntax''
   \<and> no_known_capability
        \<lparr>agent_id = ''lint_agent'', capabilities = [''syntax'', ''lint''], status = ''active''\<rparr>
   \<and> list_all
        (\<lambda>a. list_all
               (\<lambda>c. \<not> isl (style_failing_check c
                               [(''type'', Str ''code_syntax''), (''file'', Str ''parser.py'')]))
               (determine_checks a [(''type'', Str ''code_syntax''), (''file'', Str ''parser.py'')]))
        (applicable_agents
           (register_agent
              (register_agent new_verifier ''code_agent'' [''code'', ''syntax'', ''style''])
              ''lint_agent'' [''syntax'', ''lint''])
           [(''type'', Str ''code_syntax''), (''file'', Str ''parser.py'')])
   \<and> execute_verification syntax_raising_check
        (create_verification_task
           \<lparr>agent_id = ''lint_agent'', capabilities = [''syntax'', ''lint''], status = ''active''\<rparr>
           [(''type'', Str ''code_syntax''), (''file'', Str ''parser.py'')])
     = Inr \<lparr>result_agent_id = ''lint_agent'', results = [], overall = True\<rparr>
   \<and> (\<exists>vd v'. verify_change style_failing_check
                  (register_agent
                     (register_agent new_verifier ''code_agent'' [''code'', ''syntax'', ''style''])
                     ''lint_agent'' [''syntax'', ''lint''])
                  [(''type'', Str ''code_syntax''), (''file'', Str ''parser.py'')]
                = Inr (vd, v')
          \<and> rec_results (last (verification_results v'))
            = [\<lparr>result_agent_id = ''code_agent'',
                results = [(''syntax'', \<lparr>passed = True, details = ''Syntax valid''\<rparr>),
                           (''style'', \<lparr>passed = False, details = ''Line too long''\<rparr>),
                           (''complexity'', \<lparr>passed = True, details = ''Complexity acceptable''\<rparr>)],
                overall = False\<rparr>,
               \<lparr>result_agent_id = ''lint_agent'', results = [], overall = True\<rparr>]
          \<and> agent_count vd = 2 \<and> \<not> verified vd \<and> confidence vd = 1 / 2)
   \<and> (\<exists>vd v'. verify_change perform_check
                  (register_agent
                     (register_agent new_verifier ''code_agent'' [''code'', ''syntax'', ''style''])
                     ''lint_agent'' [''syntax'', ''lint''])
                  [(''type'', Str ''code_syntax''), (''file'', Str ''parser.py'')]
                = Inr (vd, v')
          \<and> agent_count vd = 2 \<and> verified vd \<and> confidence vd = 1)
   \<and> (\<exists>vd v'. verify_change syntax_raising_check
                  (register_agent new_verifier ''lint_agent'' [''syntax'', ''lint''])
                  [(''type'', Str ''code_syntax''), (''file'', Str ''parser.py'')]
                = Inr (vd, v')
          \<and> agent_count vd = 1 \<and> verified vd \<and> confidence vd = 1 \<and> issues vd = [])"
proof -
  let ?c = "[(''type'', Str ''code_syntax''), (''file'', Str ''parser.py'')]"
  let ?code = "\<lparr>agent_id = ''code_agent'', capabilities = [''code'', ''syntax'', ''style''],
                status = ''active''\<rparr>"
  let ?lint = "\<lparr>agent_id = ''lint_agent'', capabilities = [''syntax'', ''lint''],
                status = ''active''\<rparr>"
  let ?v2 = "register_agent
               (register_agent new_verifier ''code_agent'' [''code'', ''syntax'', ''style''])
               ''lint_agent'' [''syntax'', ''lint'']"
  let ?v1 = "register_agent new_verifier ''lint_agent'' [''syntax'', ''lint'']"
  have h: "dict_get ?c ''type'' (Str []) = Str ''code_syntax''"
    by (simp add: dict_get_def)
  have app2: "applicable_agents ?v2 ?c = [?code, ?lint]"
    by (simp add: applicable_agents_def register_agent_def new_verifier_def can_verify_def
        dict_get_def sublist_code)
  have app1: "applicable_agents ?v1 ?c = [?lint]"
    by (simp add: applicable_agents_def register_agent_def new_verifier_def can_verify_def
        dict_get_def sublist_code)
  have nk: "no_known_capability ?lint" "\<not> no_known_capability ?code"
    by (simp_all add: no_known_capability_def)
  have dc: "determine_checks ?code ?c = [''syntax'', ''style'', ''complexity'']"
    "determine_checks ?lint ?c = []"
    by (simp_all add: determine_checks_def)
  have sf: "style_failing_check ''syntax'' ?c = Inr \<lparr>passed = True, details = ''Syntax valid''\<rparr>"
    "style_failing_check ''style'' ?c = Inr \<lparr>passed = False, details = ''Line too long''\<rparr>"
    "style_failing_check ''complexity'' ?c
       = Inr \<lparr>passed = True, details = ''Complexity acceptable''\<rparr>"
    by (simp_all add: style_failing_check_def perform_check_def check_table_def
        check_syntax_def check_complexity_def)
  have pf: "perform_check ''syntax'' ?c = Inr \<lparr>passed = True, details = ''Syntax valid''\<rparr>"
    "perform_check ''style'' ?c = Inr \<lparr>passed = True, details = ''Style compliant''\<rparr>"
    "perform_check ''complexity'' ?c = Inr \<lparr>passed = True, details = ''Complexity acceptable''\<rparr>"
    by (simp_all add: perform_check_def check_table_def check_syntax_def check_style_def
        check_complexity_def)
  have ok_sf: "\<forall>a\<in>set (applicable_agents ?v2 ?c). \<forall>c\<in>set (determine_checks a ?c).
                 \<not> isl (style_failing_check c ?c)"
    by (simp add: app2 dc sf)
  have ok_pf: "\<forall>a\<in>set (applicable_agents ?v2 ?c). \<forall>c\<in>set (determine_checks a ?c).
                 \<not> isl (perform_check c ?c)"
    by (simp add: app2 dc pf)
  have ok_sr: "\<forall>a\<in>set (applicable_agents ?v1 ?c). \<forall>c\<in>set (determine_checks a ?c).
                 \<not> isl (syntax_raising_check c ?c)"
    by (simp add: app1 dc)
  have cp_sf: "\<not> checks_pass style_failing_check ?c ?code"
    by (simp add: checks_pass_def dc sf)
  have cp_pf: "checks_pass perform_check ?c ?code"
    by (simp add: checks_pass_def dc pf)
  note t1 = agent_without_checks_passes[where pc = style_failing_check and v = ?v2
      and change = ?c and kind = "''code_syntax''" and b = ?lint, OF h ok_sf]
  note t2 = agent_without_checks_passes[where pc = perform_check and v = ?v2
      and change = ?c and kind = "''code_syntax''" and b = ?lint, OF h ok_pf]
  note t3 = agent_without_checks_passes[where pc = syntax_raising_check and v = ?v1
      and change = ?c and kind = "''code_syntax''" and b = ?lint, OF h ok_sr]
  have ex: "execute_verification syntax_raising_check (create_verification_task ?lint ?c)
     = Inr \<lparr>result_agent_id = ''lint_agent'', results = [], overall = True\<rparr>"
    using t3[THEN conjunct1] nk(1) by simp
  from t1[THEN conjunct2] obtain vd v' where
    r1: "verify_change style_failing_check ?v2 ?c = Inr (vd, v')"
      "rec_results (last (verification_results v'))
         = map (\<lambda>a. if no_known_capability a
                     then \<lparr>result_agent_id = agent_id a, results = [], overall = True\<rparr>
                     else \<lparr>result_agent_id = agent_id a,
                           results = map (\<lambda>c. (c, projr (style_failing_check c ?c)))
                                       (determine_checks a ?c),
                           overall = checks_pass style_failing_check ?c a\<rparr>)
             (applicable_agents ?v2 ?c)"
      "agent_count vd = length (applicable_agents ?v2 ?c)"
      "verified vd \<longleftrightarrow>
         (\<forall>a\<in>set (applicable_agents ?v2 ?c).
            no_known_capability a \<or> checks_pass style_failing_check ?c a)"
      "applicable_agents ?v2 ?c \<noteq> [] \<longrightarrow>
         confidence vd
         = of_nat (length (filter (\<lambda>a. no_known_capability a
                                       \<or> checks_pass style_failing_check ?c a)
                             (applicable_agents ?v2 ?c)))
           / of_nat (length (applicable_agents ?v2 ?c))"
    by (elim exE conjE)
  have e1: "\<exists>vd v'. verify_change style_failing_check ?v2 ?c = Inr (vd, v')
          \<and> rec_results (last (verification_results v'))
            = [\<lparr>result_agent_id = ''code_agent'',
                results = [(''syntax'', \<lparr>passed = True, details = ''Syntax valid''\<rparr>),
                           (''style'', \<lparr>passed = False, details = ''Line too long''\<rparr>),
                           (''complexity'', \<lparr>passed = True, details = ''Complexity acceptable''\<rparr>)],
                overall = False\<rparr>,
               \<lparr>result_agent_id = ''lint_agent'', results = [], overall = True\<rparr>]
          \<and> agent_count vd = 2 \<and> \<not> verified vd \<and> confidence vd = 1 / 2"
    by (intro exI[of _ vd] exI[of _ v'])
      (use r1 in \<open>simp add: app2 nk dc sf cp_sf\<close>)
  from t2[THEN conjunct2] obtain vd2 v2' where
    r2: "verify_change perform_check ?v2 ?c = Inr (vd2, v2')"
      "agent_count vd2 = length (applicable_agents ?v2 ?c)"
      "verified vd2 \<longleftrightarrow>
         (\<forall>a\<in>set (applicable_agents ?v2 ?c).
            no_known_capability a \<or> checks_pass perform_check ?c a)"
      "applicable_agents ?v2 ?c \<noteq> [] \<longrightarrow>
         confidence vd2
         = of_nat (length (filter (\<lambda>a. no_known_capability a \<or> checks_pass perform_check ?c a)
                             (applicable_agents ?v2 ?c)))
           / of_nat (length (applicable_agents ?v2 ?c))"
    by (elim exE conjE)
  have e2: "\<exists>vd v'. verify_change perform_check ?v2 ?c = Inr (vd, v')
          \<and> agent_count vd = 2 \<and> verified vd \<and> confidence vd = 1"
    by (intro exI[of _ vd2] exI[of _ v2'])
      (use r2 in \<open>simp add: app2 nk cp_pf\<close>)
  from t3[THEN conjunct2] obtain vd3 v3' where
    r3: "verify_change syntax_raising_check ?v1 ?c = Inr (vd3, v3')"
      "agent_count vd3 = length (applicable_agents ?v1 ?c)"
      "applicable_agents ?v1 ?c \<noteq> []
         \<and> (\<forall>a\<in>set (applicable_agents ?v1 ?c). no_known_capability a)
         \<longrightarrow> verified vd3 \<and> confidence vd3 = 1 \<and> issues vd3 = []"
    by (elim exE conjE)
  have e3: "\<exists>vd v'. verify_change syntax_raising_check ?v1 ?c = Inr (vd, v')
          \<and> agent_count vd = 1 \<and> verified vd \<and> confidence vd = 1 \<and> issues vd = []"
    by (intro exI[of _ vd3] exI[of _ v3'])
      (use r3 in \<open>simp add: app1 nk\<close>)
  have la: "list_all (\<lambda>a. list_all (\<lambda>c. \<not> isl (style_failing_check c ?c))
                            (determine_checks a ?c)) (applicable_agents ?v2 ?c)"
    using ok_sf by (simp add: list_all_iff)
  show ?thesis
    by (intro conjI) (rule h, rule nk(1), rule la, rule ex, rule e1, rule e2, rule e3)
qed

section \<open>Properties of the pattern selector and the catalog\<close>

lemma healing_loop_find:
  "healing_loop rules error_type
   = map_option snd (find (\<lambda>r. sublist (fst r) (lower error_type)) rules)"
  by (induction rules) auto

lemma healing_loop_Some_iff:
  "healing_loop rules error_type = Some pat \<longleftrightarrow>
     (\<exists>i<length rules. snd (rules ! i) = pat
        \<and> sublist (fst (rules ! i)) (lower error_type)
        \<and> (\<forall>j<i. \<not> sublist (fst (rules ! j)) (lower error_type)))"
  (is "?L \<longleftrightarrow> ?R")
proof
  assume ?L
  then obtain x where x: "find (\<lambda>r. sublist (fst r) (lower error_type)) rules = Some x"
    and p: "snd x = pat"
    by (auto simp: healing_loop_find)
  from x obtain i where "i < length rules" "sublist (fst (rules ! i)) (lower error_type)"
    "x = rules ! i" "\<forall>j<i. \<not> sublist (fst (rules ! j)) (lower error_type)"
    unfolding find_Some_iff by blast
  with p show ?R by blast
next
  assume ?R
  then obtain i where i: "i < length rules" "snd (rules ! i) = pat"
    "sublist (fst (rules ! i)) (lower error_type)"
    "\<forall>j<i. \<not> sublist (fst (rules ! j)) (lower error_type)" by blast
  then have "find (\<lambda>r. sublist (fst r) (lower error_type)) rules = Some (rules ! i)"
    unfolding find_Some_iff by blast
  with i(2) show ?L by (simp add: healing_loop_find)
qed

lemma healing_loop_None_iff:
  "healing_loop rules error_type = None \<longleftrightarrow>
     (\<forall>i<length rules. \<not> sublist (fst (rules ! i)) (lower error_type))"
proof -
  have "healing_loop rules error_type = None \<longleftrightarrow>
          (\<forall>r\<in>set rules. \<not> sublist (fst r) (lower error_type))"
    unfolding healing_loop_find by (auto simp: find_None_iff)
  also have "\<dots> \<longleftrightarrow> (\<forall>i<length rules. \<not> sublist (fst (rules ! i)) (lower error_type))"
    by (simp add: all_set_conv_all_nth)
  finally show ?thesis .
qed

lemma healing_loop_range:
  "healing_loop rules error_type = Some pat \<Longrightarrow> pat \<in> snd ` set rules"
  by (induction rules) (auto split: if_splits)

lemma lower_connection_timeout: "lower ''connection_timeout'' = ''connection_timeout''"
  by code_simp

lemma lower_rate_limit_exceeded: "lower ''rate_limit_exceeded'' = ''rate_limit_exceeded''"
  by code_simp

text \<open>
  C4. On an error type that is a string, the selector returns the pattern of the first
  rule, in the order connection, timeout, rate_limit, service_unavailable, cache_miss,
  whose key occurs in the lowercased error type, and \<open>None\<close> when no key occurs;
  \<open>connection_timeout\<close> selects \<open>connection_retry\<close> and \<open>rate_limit_exceeded\<close> selects
  \<open>rate_limiter\<close>.
\<close>

theorem determine_healing_pattern_first_match:
  assumes "dict_get (fcontext f) ''error_type'' (Str []) = Str error_type"
  shows "pattern_map = [(''connection'', ''connection_retry''), (''timeout'', ''circuit_breaker''),
                        (''rate_limit'', ''rate_limiter''), (''service_unavailable'', ''fallback''),
                        (''cache_miss'', ''cache_recovery'')]
       \<and> (\<forall>pat. determine_healing_pattern f = Inr (Some pat) \<longleftrightarrow>
             (\<exists>i<length pattern_map. snd (pattern_map ! i) = pat
                \<and> sublist (fst (pattern_map ! i)) (lower error_type)
                \<and> (\<forall>j<i. \<not> sublist (fst (pattern_map ! j)) (lower error_type))))
       \<and> (determine_healing_pattern f = Inr None \<longleftrightarrow>
             (\<forall>i<length pattern_map. \<not> sublist (fst (pattern_map ! i)) (lower error_type)))
       \<and> \<not> isl (determine_healing_pattern f)
       \<and> (error_type = ''connection_timeout'' \<longrightarrow>
             determine_healing_pattern f = Inr (Some ''connection_retry''))
       \<and> (error_type = ''rate_limit_exceeded'' \<longrightarrow>
             determine_healing_pattern f = Inr (Some ''rate_limiter''))"
proof -
  have d: "determine_healing_pattern f = Inr (healing_loop pattern_map error_type)"
    by (simp add: determine_healing_pattern_def assms)
  have a: "healing_loop pattern_map ''connection_timeout'' = Some ''connection_retry''"
    by (simp add: pattern_map_def lower_connection_timeout sublist_code)
  have b: "healing_loop pattern_map ''rate_limit_exceeded'' = Some ''rate_limiter''"
    by (simp add: pattern_map_def lower_rate_limit_exceeded sublist_code)
  show ?thesis
    unfolding d using a b
    by (simp add: healing_loop_Some_iff healing_loop_None_iff) (simp add: pattern_map_def)
qed

theorem determine_healing_pattern_first_match_witness:
  "dict_get (fcontext \<lparr>ftype = RUNTIME_ERROR, description = ''Upstream call failed'',
                       fcontext = [(''error_type'', Str ''Gateway TIMEOUT after cache_miss''),
                                   (''port'', Num 8080)],
                       timestamp = ''2024-01-01T00:00:00'', resolved = False,
                       resolution = None\<rparr>) ''error_type'' (Str [])
     = Str ''Gateway TIMEOUT after cache_miss''
   \<and> determine_healing_pattern
        \<lparr>ftype = RUNTIME_ERROR, description = ''Upstream call failed'',
         fcontext = [(''error_type'', Str ''Gateway TIMEOUT after cache_miss''),
                     (''port'', Num 8080)],
         timestamp = ''2024-01-01T00:00:00'', resolved = False, resolution = None\<rparr>
     = Inr (Some ''circuit_breaker'')
   \<and> (\<exists>i<length pattern_map. snd (pattern_map ! i) = ''circuit_breaker''
         \<and> sublist (fst (pattern_map ! i)) (lower ''Gateway TIMEOUT after cache_miss'')
         \<and> list_all (\<lambda>j. \<not> sublist (fst (pattern_map ! j))
                                (lower ''Gateway TIMEOUT after cache_miss'')) [0..<i])"
proof -
  let ?f = "\<lparr>ftype = RUNTIME_ERROR, description = ''Upstream call failed'',
         fcontext = [(''error_type'', Str ''Gateway TIMEOUT after cache_miss''),
                     (''port'', Num 8080)],
         timestamp = ''2024-01-01T00:00:00'', resolved = False, resolution = None\<rparr>"
  have h: "dict_get (fcontext ?f) ''error_type'' (Str []) = Str ''Gateway TIMEOUT after cache_miss''"
    by (simp add: dict_get_def)
  have v: "determine_healing_pattern ?f = Inr (Some ''circuit_breaker'')"
    by code_simp
  note iff = determine_healing_pattern_first_match[OF h, THEN conjunct2, THEN conjunct1,
      THEN spec, of "''circuit_breaker''"]
  from iffD1[OF iff v] obtain i where
    i: "i < length pattern_map \<and> snd (pattern_map ! i) = ''circuit_breaker''
         \<and> sublist (fst (pattern_map ! i)) (lower ''Gateway TIMEOUT after cache_miss'')
         \<and> (\<forall>j<i. \<not> sublist (fst (pattern_map ! j))
                           (lower ''Gateway TIMEOUT after cache_miss''))" ..
  have ex: "\<exists>i<length pattern_map. snd (pattern_map ! i) = ''circuit_breaker''
         \<and> sublist (fst (pattern_map ! i)) (lower ''Gateway TIMEOUT after cache_miss'')
         \<and> list_all (\<lambda>j. \<not> sublist (fst (pattern_map ! j))
                                (lower ''Gateway TIMEOUT after cache_miss'')) [0..<i]"
    by (rule exI[of _ i]) (use i in \<open>simp add: list_all_iff\<close>)
  show ?thesis by (intro conjI) (rule h, rule v, rule ex)
qed

text \<open>
  C7. \<open>apply_pattern\<close> raises exactly when the name is none of the six names of the
  catalog, and what it raises is the error \<open>Unknown pattern\<close> with the name; on a name of
  the catalog it returns an application of that pattern to that target, and appends it to
  the list of applied patterns.
\<close>

theorem apply_pattern_unknown_iff:
  "(isl (apply_pattern tpl applied pattern_name tgt) \<longleftrightarrow>
      pattern_name \<notin> set [''connection_retry'', ''circuit_breaker'', ''fallback'',
                          ''cache_recovery'', ''rate_limiter'', ''health_check''])
   \<and> (isl (apply_pattern tpl applied pattern_name tgt) \<longleftrightarrow>
        apply_pattern tpl applied pattern_name tgt
          = Inl (ValueError (''Unknown pattern: '' @ pattern_name)))
   \<and> (pattern_name \<in> set [''connection_retry'', ''circuit_breaker'', ''fallback'',
                          ''cache_recovery'', ''rate_limiter'', ''health_check'']
        \<longrightarrow> (\<exists>res. apply_pattern tpl applied pattern_name tgt = Inr (res, applied @ [res])
                   \<and> pattern res = pattern_name \<and> target res = tgt))"
  by (auto simp: apply_pattern_def patterns_def Let_def)

theorem apply_pattern_unknown_iff_witness:
  "''circuit_breaker'' \<in> set [''connection_retry'', ''circuit_breaker'', ''fallback'',
                          ''cache_recovery'', ''rate_limiter'', ''health_check'']
   \<and> (\<exists>res. apply_pattern sample_template [] ''circuit_breaker'' (Str ''external_api_call'')
               = Inr (res, [res])
          \<and> pattern res = ''circuit_breaker'' \<and> target res = Str ''external_api_call'')
   \<and> ''retry_forever'' \<notin> set [''connection_retry'', ''circuit_breaker'', ''fallback'',
                          ''cache_recovery'', ''rate_limiter'', ''health_check'']
   \<and> apply_pattern sample_template [] ''retry_forever'' (Str ''external_api_call'')
       = Inl (ValueError ''Unknown pattern: retry_forever'')"
proof -
  have a: "''circuit_breaker'' \<in> set [''connection_retry'', ''circuit_breaker'', ''fallback'',
                          ''cache_recovery'', ''rate_limiter'', ''health_check'']" by simp
  have b: "''retry_forever'' \<notin> set [''connection_retry'', ''circuit_breaker'', ''fallback'',
                          ''cache_recovery'', ''rate_limiter'', ''health_check'']" by simp
  from apply_pattern_unknown_iff[of sample_template "[]" "''circuit_breaker''"
      "Str ''external_api_call''"]
    apply_pattern_unknown_iff[of sample_template "[]" "''retry_forever''"
      "Str ''external_api_call''"] a b
  show ?thesis by auto
qed

text \<open>
  C10. A name that the selector returns is one of its five patterns and a key of the
  catalog, so that \<open>apply_pattern\<close> returns on it; the self-healing step of
  \<open>handle_failure\<close> never raises \<open>ValueError\<close>, and raises only when the selector does.
\<close>

theorem healing_pattern_in_catalog:
  "(determine_healing_pattern f = Inr (Some pat) \<longrightarrow>
      pat \<in> set [''connection_retry'', ''circuit_breaker'', ''rate_limiter'', ''fallback'',
                 ''cache_recovery'']
      \<and> pat \<in> fst ` set (patterns tpl)
      \<and> \<not> isl (apply_pattern tpl applied pat tgt))
   \<and> (\<forall>msg. (healing_stage tpl applied f :: error + 'r step_entry list \<times> pattern_application list) \<noteq> Inl (ValueError msg))
   \<and> (isl (healing_stage tpl applied f :: error + 'r step_entry list \<times> pattern_application list) \<longleftrightarrow> isl (determine_healing_pattern f))"
proof -
  have r: "pat \<in> set [''connection_retry'', ''circuit_breaker'', ''rate_limiter'', ''fallback'',
                 ''cache_recovery'']"
    if "determine_healing_pattern f = Inr (Some pat)" for pat
  proof -
    from that obtain e where "healing_loop pattern_map e = Some pat"
      by (auto simp: determine_healing_pattern_def split: pyval.splits)
    from healing_loop_range[OF this] show ?thesis by (auto simp: pattern_map_def)
  qed
  have k: "pat \<in> fst ` set (patterns tpl)"
    if "pat \<in> set [''connection_retry'', ''circuit_breaker'', ''rate_limiter'', ''fallback'',
                 ''cache_recovery'']" for pat
    using that by (auto simp: patterns_def)
  have ap: "\<not> isl (apply_pattern tpl applied pat t)"
    if "pat \<in> set [''connection_retry'', ''circuit_breaker'', ''rate_limiter'', ''fallback'',
                 ''cache_recovery'']" for pat t
    using that by (auto simp: apply_pattern_def patterns_def Let_def)
  have st: "isl (healing_stage tpl applied f :: error + 'r step_entry list \<times> pattern_application list) \<longleftrightarrow> isl (determine_healing_pattern f)"
  proof (cases "determine_healing_pattern f")
    case (Inl e)
    then show ?thesis by (simp add: healing_stage_def)
  next
    case (Inr sel)
    show ?thesis
    proof (cases sel)
      case None
      with Inr show ?thesis by (simp add: healing_stage_def)
    next
      case (Some pat)
      with Inr ap[OF r, of pat "dict_get (fcontext f) ''target'' (Str ''system'')"]
      show ?thesis
        by (auto simp: healing_stage_def split: sum.splits)
    qed
  qed
  have nv: "(healing_stage tpl applied f :: error + 'r step_entry list \<times> pattern_application list) \<noteq> Inl (ValueError msg)" for msg
  proof (rule notI)
    assume v: "(healing_stage tpl applied f :: error + 'r step_entry list \<times> pattern_application list) = Inl (ValueError msg)"
    then have "isl (healing_stage tpl applied f :: error + 'r step_entry list \<times> pattern_application list)" by simp
    with st obtain e where e: "determine_healing_pattern f = Inl e"
      by (cases "determine_healing_pattern f") auto
    then have "e = AttributeError"
      by (auto simp: determine_healing_pattern_def split: pyval.splits)
    with e v show False by (simp add: healing_stage_def)
  qed
  from r k ap st nv show ?thesis by blast
qed

theorem healing_pattern_in_catalog_witness:
  "determine_healing_pattern
      \<lparr>ftype = MCP_ERROR, description = ''Request timeout'',
       fcontext = [(''error_type'', Str ''timeout''), (''target'', Str ''data_service'')],
       timestamp = ''2024-01-01T00:00:00'', resolved = False, resolution = None\<rparr>
     = Inr (Some ''circuit_breaker'')
   \<and> ''circuit_breaker'' \<in> fst ` set (patterns sample_template)
   \<and> \<not> isl (apply_pattern sample_template [] ''circuit_breaker'' (Str ''data_service''))"
proof -
  let ?f = "\<lparr>ftype = MCP_ERROR, description = ''Request timeout'',
       fcontext = [(''error_type'', Str ''timeout''), (''target'', Str ''data_service'')],
       timestamp = ''2024-01-01T00:00:00'', resolved = False, resolution = None\<rparr>"
  have v: "determine_healing_pattern ?f = Inr (Some ''circuit_breaker'')"
    by code_simp
  note t = healing_pattern_in_catalog[of ?f "''circuit_breaker''" sample_template "[]"
      "Str ''data_service''", THEN conjunct1, THEN mp, OF v]
  show ?thesis
    by (intro conjI) (rule v, rule t[THEN conjunct2, THEN conjunct1],
        rule t[THEN conjunct2, THEN conjunct2])
qed

section \<open>Properties of the pipeline\<close>

lemma handle_failure_Inr:
  assumes "handle_failure dbg pc gen ev tpl st f = Inr (res, st')"
  shows "\<exists>dr fixes' f' vs v' tf hs ap er.
           dbg (debugger_fixes st) f = Inr (dr, fixes', f')
         \<and> verify_stage pc (verifier_state st) dr = Inr (vs, v')
         \<and> gen f' = Inr tf
         \<and> healing_stage tpl (applied_patterns st) f' = Inr (hs, ap)
         \<and> ev f' = Inr er
         \<and> steps res = [\<lparr>step = ''debug'', result = Debug_result dr\<rparr>] @ vs
                        @ [\<lparr>step = ''regression_test'', result = Test_file tf\<rparr>] @ hs
                        @ [\<lparr>step = ''evaluation'', result = Evaluation er\<rparr>]"
  using assms unfolding handle_failure_def
  by (auto split: sum.splits prod.splits)

lemma verify_stage_steps:
  assumes "verify_stage pc v dr = Inr (vs, v')"
  shows "map step vs = (if has_code_changes dr then [''verify''] else [])"
    and "healing_patterns vs = []"
  using assms
  by (auto simp: verify_stage_def has_code_changes_def
      split: option.splits if_splits sum.splits prod.splits)

lemma selected_pattern_nonempty:
  assumes "determine_healing_pattern f = Inr (Some pat)"
  shows "pat \<noteq> []"
proof -
  from assms obtain e where "healing_loop pattern_map e = Some pat"
    by (auto simp: determine_healing_pattern_def split: pyval.splits)
  from healing_loop_range[OF this] show ?thesis by (auto simp: pattern_map_def)
qed

lemma healing_stage_steps:
  assumes "healing_stage tpl applied f = Inr (hs, applied')"
  shows "\<exists>sel. determine_healing_pattern f = Inr sel
           \<and> map step hs = (if sel \<noteq> None then [''self_healing''] else [])
           \<and> healing_patterns hs = (case sel of None \<Rightarrow> [] | Some pat \<Rightarrow> [pat])"
proof (cases "determine_healing_pattern f")
  case (Inl e)
  with assms show ?thesis by (simp add: healing_stage_def)
next
  case (Inr sel)
  show ?thesis
  proof (cases sel)
    case None
    with Inr assms show ?thesis by (auto simp: healing_stage_def)
  next
    case (Some pat)
    with Inr have ne: "pat \<noteq> []" by (simp add: selected_pattern_nonempty)
    from assms Inr Some ne obtain h where
      "apply_pattern tpl applied pat (dict_get (fcontext f) ''target'' (Str ''system''))
         = Inr (h, applied')"
      and hs: "hs = [\<lparr>step = ''self_healing'', result = Healing_result h\<rparr>]"
      by (auto simp: healing_stage_def split: sum.splits)
    then have "pattern h = pat"
      by (auto simp: apply_pattern_def Let_def split: option.splits)
    with Inr Some hs show ?thesis by simp
  qed
qed

lemma healing_patterns_append:
  "healing_patterns (xs @ ys) = healing_patterns xs @ healing_patterns ys"
  by (induction xs) (auto split: step_result.splits)

lemma debug_failure_Inr:
  assumes "debug_failure tpl fixes f = Inr (dr, fixes', f')"
  shows "has_code_changes dr" and "fcontext f' = fcontext f"
  using assms
  by (auto simp: debug_failure_def fix_mcp_error_def add_missing_tool_def
      improve_documentation_def generic_fix_def analyze_and_fix_error_def
      fix_connection_issue_def fix_timeout_issue_def fix_auth_issue_def
      has_code_changes_def Let_def
      split: failure_type.splits pyval.splits sum.splits if_splits prod.splits)

lemma handle_failure_returns:
  assumes "dbg (debugger_fixes st) f = Inr (dr, fixes', f')"
    and "verify_stage pc (verifier_state st) dr = Inr (vs :: 'r step_entry list, v')"
    and "gen f' = Inr tf"
    and "determine_healing_pattern f' = Inr sel"
    and "ev f' = Inr (er :: 'r)"
  shows "\<exists>res st'. handle_failure dbg pc gen ev tpl st f = Inr (res, st')"
proof -
  have "\<not> isl (healing_stage tpl (applied_patterns st) f'
                 :: error + 'r step_entry list \<times> pattern_application list)"
  proof (cases sel)
    case None
    with assms(4) show ?thesis by (simp add: healing_stage_def)
  next
    case (Some pat)
    from healing_loop_range[of pattern_map _ pat] assms(4) Some
    have "pat \<in> snd ` set pattern_map"
      by (auto simp: determine_healing_pattern_def split: pyval.splits)
    then have "\<not> isl (apply_pattern tpl (applied_patterns st) pat
                        (dict_get (fcontext f') ''target'' (Str ''system'')))"
      by (auto simp: pattern_map_def apply_pattern_def patterns_def Let_def)
    with assms(4) Some show ?thesis
      by (auto simp: healing_stage_def split: sum.splits)
  qed
  then obtain hs ap where
    "healing_stage tpl (applied_patterns st) f'
       = (Inr (hs, ap) :: error + 'r step_entry list \<times> pattern_application list)"
    by (cases "healing_stage tpl (applied_patterns st) f'
                 :: error + 'r step_entry list \<times> pattern_application list") auto
  with assms(1,2,3,5) show ?thesis
    by (simp add: handle_failure_def)
qed

text \<open>
  C6. The claim fails on a failure whose diagnosis returns and whose error type is not a
  string: for a runtime error with the context \<open>error_type = 500\<close> the debugger returns
  its generic fix, and \<open>handle_failure\<close> then raises AttributeError in the selector, so
  that no trace is returned.
\<close>

theorem handle_failure_raises_after_diagnosis:
  "debug_failure sample_template (debugger_fixes new_protocol)
      \<lparr>ftype = RUNTIME_ERROR, description = ''Upstream returned an error'',
       fcontext = [(''error_type'', Num 500), (''target'', Str ''upstream'')],
       timestamp = ''2024-01-01T00:00:00'', resolved = False, resolution = None\<rparr>
     = Inr (\<lparr>issue = ''Upstream returned an error'',
             solution = ''Applied generic error handling and logging'',
             code_changes = Some [(''file'', Str ''generic_fixes.py''),
                                  (''additions'', Str ''handle_generic_error'')]\<rparr>,
            [],
            \<lparr>ftype = RUNTIME_ERROR, description = ''Upstream returned an error'',
             fcontext = [(''error_type'', Num 500), (''target'', Str ''upstream'')],
             timestamp = ''2024-01-01T00:00:00'', resolved = False, resolution = None\<rparr>)
   \<and> handle_failure (debug_failure sample_template) perform_check sample_generate
        sample_evaluation sample_template new_protocol
        \<lparr>ftype = RUNTIME_ERROR, description = ''Upstream returned an error'',
         fcontext = [(''error_type'', Num 500), (''target'', Str ''upstream'')],
         timestamp = ''2024-01-01T00:00:00'', resolved = False, resolution = None\<rparr>
     = Inl AttributeError"
  by code_simp

text \<open>
  C6, amended. When the debugger returns, the error type of the failure as the debugger
  has left it is a string, and the verification of the change, the regression test
  generator and the evaluation return, \<open>handle_failure\<close> returns, and the names of the
  steps of its result are debug, then verify exactly when the result of the debugger
  holds code changes, then regression_test, then self_healing exactly when the selector
  has chosen a pattern, then evaluation; with no code changes and no pattern they are
  debug, regression_test, evaluation.
\<close>

theorem handle_failure_step_order:
  assumes "dbg (debugger_fixes st) f = Inr (dr, fixes', f')"
    and "dict_get (fcontext f') ''error_type'' (Str []) = Str error_type"
    and "verify_stage pc (verifier_state st) dr = Inr (vs :: 'r step_entry list, v')"
    and "gen f' = Inr tf"
    and "ev f' = Inr (er :: 'r)"
  shows "\<exists>res st' sel.
           handle_failure dbg pc gen ev tpl st f = Inr (res, st')
         \<and> determine_healing_pattern f' = Inr sel
         \<and> step_names res
             = [''debug''] @ (if has_code_changes dr then [''verify''] else [])
               @ [''regression_test''] @ (if sel \<noteq> None then [''self_healing''] else [])
               @ [''evaluation'']
         \<and> (\<not> has_code_changes dr \<and> sel = None
              \<longrightarrow> step_names res = [''debug'', ''regression_test'', ''evaluation''])"
proof -
  define sel where "sel = healing_loop pattern_map error_type"
  have sel: "determine_healing_pattern f' = Inr sel"
    by (simp add: determine_healing_pattern_def assms(2) sel_def)
  from handle_failure_returns[where dbg = dbg and pc = pc and gen = gen and ev = ev
      and tpl = tpl and st = st and f = f, OF assms(1) assms(3) assms(4) sel assms(5)]
  obtain res st' where r: "handle_failure dbg pc gen ev tpl st f = Inr (res, st')" by blast
  from handle_failure_Inr[OF r] assms(1) obtain vs2 v2 tf2 hs ap er2 where
    v: "verify_stage pc (verifier_state st) dr = Inr (vs2, v2)"
    and h: "healing_stage tpl (applied_patterns st) f' = Inr (hs, ap)"
    and s: "steps res = [\<lparr>step = ''debug'', result = Debug_result dr\<rparr>] @ vs2
                        @ [\<lparr>step = ''regression_test'', result = Test_file tf2\<rparr>] @ hs
                        @ [\<lparr>step = ''evaluation'', result = Evaluation er2\<rparr>]"
    by auto
  from healing_stage_steps[OF h] sel
  have hn: "map step hs = (if sel \<noteq> None then [''self_healing''] else [])" by auto
  have n: "step_names res
             = [''debug''] @ (if has_code_changes dr then [''verify''] else [])
               @ [''regression_test''] @ (if sel \<noteq> None then [''self_healing''] else [])
               @ [''evaluation'']"
    by (simp add: step_names_def s verify_stage_steps(1)[OF v] hn)
  then have "\<not> has_code_changes dr \<and> sel = None
              \<longrightarrow> step_names res = [''debug'', ''regression_test'', ''evaluation'']"
    by simp
  with r sel n show ?thesis by blast
qed

text \<open>
  C8. With the debugger of the source, two runs of \<open>handle_failure\<close> that return, from
  any two states, on failures with the same context, give the same names of steps and the
  same patterns in their self-healing steps.
\<close>

theorem handle_failure_steps_depend_on_context:
  assumes "fcontext f1 = fcontext f2"
    and "handle_failure (debug_failure tpl) pc gen ev tpl st1 f1 = Inr (res1, st1')"
    and "handle_failure (debug_failure tpl) pc gen ev tpl st2 f2 = Inr (res2, st2')"
  shows "step_names res1 = step_names res2
       \<and> healing_patterns (steps res1) = healing_patterns (steps res2)"
proof -
  have run: "\<exists>sel. determine_healing_pattern f = Inr sel
       \<and> step_names res = [''debug'', ''verify'', ''regression_test'']
           @ (if sel \<noteq> None then [''self_healing''] else []) @ [''evaluation'']
       \<and> healing_patterns (steps res) = (case sel of None \<Rightarrow> [] | Some pat \<Rightarrow> [pat])"
    if r: "handle_failure (debug_failure tpl) pc gen ev tpl st f = Inr (res, st')"
    for st f st' and res :: "'a protocol_result"
  proof -
    from handle_failure_Inr[OF r] obtain dr fixes' f' vs v' tf hs ap er where
      d: "debug_failure tpl (debugger_fixes st) f = Inr (dr, fixes', f')"
      and v: "verify_stage pc (verifier_state st) dr = Inr (vs, v')"
      and h: "healing_stage tpl (applied_patterns st) f' = Inr (hs, ap)"
      and s: "steps res = [\<lparr>step = ''debug'', result = Debug_result dr\<rparr>] @ vs
                        @ [\<lparr>step = ''regression_test'', result = Test_file tf\<rparr>] @ hs
                        @ [\<lparr>step = ''evaluation'', result = Evaluation er\<rparr>]"
      by blast
    from healing_stage_steps[OF h] obtain sel where
      sel: "determine_healing_pattern f' = Inr sel"
      and hn: "map step hs = (if sel \<noteq> None then [''self_healing''] else [])"
      and hp: "healing_patterns hs = (case sel of None \<Rightarrow> [] | Some pat \<Rightarrow> [pat])" by blast
    have "determine_healing_pattern f = Inr sel"
      using sel debug_failure_Inr(2)[OF d] by (simp add: determine_healing_pattern_def)
    moreover have "step_names res = [''debug'', ''verify'', ''regression_test'']
           @ (if sel \<noteq> None then [''self_healing''] else []) @ [''evaluation'']"
      by (simp add: step_names_def s verify_stage_steps(1)[OF v] hn debug_failure_Inr(1)[OF d])
    moreover have "healing_patterns (steps res) = (case sel of None \<Rightarrow> [] | Some pat \<Rightarrow> [pat])"
      by (simp add: s healing_patterns_append verify_stage_steps(2)[OF v] hp)
    ultimately show ?thesis by blast
  qed
  from run[OF assms(2)] run[OF assms(3)] assms(1)
  show ?thesis by (auto simp: determine_healing_pattern_def)
qed

theorem handle_failure_step_order_witness:
  "no_change_debugger (debugger_fixes new_protocol)
      \<lparr>ftype = MCP_ERROR, description = ''Authentication failed'',
       fcontext = [(''error_type'', Str ''authentication''),
                   (''traceback'', Str ''AuthenticationError: Invalid API key''),
                   (''target'', Str ''auth_service'')],
       timestamp = ''2024-01-01T00:00:00'', resolved = False, resolution = None\<rparr>
     = Inr (\<lparr>issue = ''Authentication failed'', solution = ''No change proposed'',
             code_changes = None\<rparr>,
            [],
            \<lparr>ftype = MCP_ERROR, description = ''Authentication failed'',
             fcontext = [(''error_type'', Str ''authentication''),
                         (''traceback'', Str ''AuthenticationError: Invalid API key''),
                         (''target'', Str ''auth_service'')],
             timestamp = ''2024-01-01T00:00:00'', resolved = False, resolution = None\<rparr>)
   \<and> \<not> isl (handle_failure no_change_debugger perform_check sample_generate sample_evaluation
             sample_template new_protocol
             \<lparr>ftype = MCP_ERROR, description = ''Authentication failed'',
              fcontext = [(''error_type'', Str ''authentication''),
                          (''traceback'', Str ''AuthenticationError: Invalid API key''),
                          (''target'', Str ''auth_service'')],
              timestamp = ''2024-01-01T00:00:00'', resolved = False, resolution = None\<rparr>)
   \<and> step_names (fst (projr
         (handle_failure no_change_debugger perform_check sample_generate sample_evaluation
             sample_template new_protocol
             \<lparr>ftype = MCP_ERROR, description = ''Authentication failed'',
              fcontext = [(''error_type'', Str ''authentication''),
                          (''traceback'', Str ''AuthenticationError: Invalid API key''),
                          (''target'', Str ''auth_service'')],
              timestamp = ''2024-01-01T00:00:00'', resolved = False, resolution = None\<rparr>)))
     = [''debug'', ''regression_test'', ''evaluation'']
   \<and> \<not> isl (debug_failure sample_template (debugger_fixes new_protocol)
             \<lparr>ftype = MCP_ERROR, description = ''Request timeout'',
              fcontext = [(''error_type'', Str ''timeout''),
                          (''traceback'', Str ''TimeoutError: Request timed out after 30 seconds''),
                          (''target'', Str ''data_service'')],
              timestamp = ''2024-01-01T00:00:00'', resolved = False, resolution = None\<rparr>)
   \<and> \<not> isl (handle_failure (debug_failure sample_template) perform_check sample_generate
             sample_evaluation sample_template new_protocol
             \<lparr>ftype = MCP_ERROR, description = ''Request timeout'',
              fcontext = [(''error_type'', Str ''timeout''),
                          (''traceback'', Str ''TimeoutError: Request timed out after 30 seconds''),
                          (''target'', Str ''data_service'')],
              timestamp = ''2024-01-01T00:00:00'', resolved = False, resolution = None\<rparr>)
   \<and> step_names (fst (projr
         (handle_failure (debug_failure sample_template) perform_check sample_generate
             sample_evaluation sample_template new_protocol
             \<lparr>ftype = MCP_ERROR, description = ''Request timeout'',
              fcontext = [(''error_type'', Str ''timeout''),
                          (''traceback'', Str ''TimeoutError: Request timed out after 30 seconds''),
                          (''target'', Str ''data_service'')],
              timestamp = ''2024-01-01T00:00:00'', resolved = False, resolution = None\<rparr>)))
     = [''debug'', ''verify'', ''regression_test'', ''self_healing'', ''evaluation'']"
proof -
  let ?fa = "\<lparr>ftype = MCP_ERROR, description = ''Authentication failed'',
              fcontext = [(''error_type'', Str ''authentication''),
                          (''traceback'', Str ''AuthenticationError: Invalid API key''),
                          (''target'', Str ''auth_service'')],
              timestamp = ''2024-01-01T00:00:00'', resolved = False, resolution = None\<rparr>"
  let ?fb = "\<lparr>ftype = MCP_ERROR, description = ''Request timeout'',
              fcontext = [(''error_type'', Str ''timeout''),
                          (''traceback'', Str ''TimeoutError: Request timed out after 30 seconds''),
                          (''target'', Str ''data_service'')],
              timestamp = ''2024-01-01T00:00:00'', resolved = False, resolution = None\<rparr>"
  let ?dra = "\<lparr>issue = ''Authentication failed'', solution = ''No change proposed'',
               code_changes = None\<rparr>"
  let ?A = "handle_failure no_change_debugger perform_check sample_generate sample_evaluation
             sample_template new_protocol ?fa"
  let ?B = "handle_failure (debug_failure sample_template) perform_check sample_generate
             sample_evaluation sample_template new_protocol ?fb"
  let ?D = "debug_failure sample_template (debugger_fixes new_protocol) ?fb"
  let ?V = "verify_stage perform_check (verifier_state new_protocol) (fst (projr ?D))
              :: error + string step_entry list \<times> verifier"
  \<comment> \<open>the run with no change and no pattern\<close>
  have da: "no_change_debugger (debugger_fixes new_protocol) ?fa = Inr (?dra, [], ?fa)"
    by (simp add: no_change_debugger_def new_protocol_def)
  have ea: "dict_get (fcontext ?fa) ''error_type'' (Str []) = Str ''authentication''"
    by (simp add: dict_get_def)
  have va: "verify_stage perform_check (verifier_state new_protocol) ?dra
            = Inr ([] :: string step_entry list, verifier_state new_protocol)"
    by (simp add: verify_stage_def)
  have ga: "sample_generate ?fa = Inr ''tests/regression/test_mcp_error.py''"
    by (simp add: sample_generate_def)
  have eva: "sample_evaluation ?fa = Inr ''fix_mcp_error''"
    by (simp add: sample_evaluation_def)
  have sa: "determine_healing_pattern ?fa = Inr None" by code_simp
  from handle_failure_step_order[where dbg = no_change_debugger and pc = perform_check
      and gen = sample_generate and ev = sample_evaluation and tpl = sample_template
      and st = new_protocol and f = ?fa, OF da ea va ga eva]
  obtain res st' sel where
    ra: "?A = Inr (res, st')"
    and sel: "determine_healing_pattern ?fa = Inr sel"
    and na: "\<not> has_code_changes ?dra \<and> sel = None
              \<longrightarrow> step_names res = [''debug'', ''regression_test'', ''evaluation'']"
    by (elim exE conjE)
  from sel sa have "sel = None" by simp
  with na have "step_names res = [''debug'', ''regression_test'', ''evaluation'']"
    by (simp add: has_code_changes_def)
  with ra have a1: "\<not> isl ?A"
    and a2: "step_names (fst (projr ?A)) = [''debug'', ''regression_test'', ''evaluation'']"
    by simp_all
  \<comment> \<open>the run with a change and a pattern\<close>
  have nd: "\<not> isl ?D" by code_simp
  then have db: "?D = Inr (fst (projr ?D), fst (snd (projr ?D)), snd (snd (projr ?D)))"
    by (cases ?D) simp_all
  have fb: "fcontext (snd (snd (projr ?D))) = fcontext ?fb"
    by (rule debug_failure_Inr(2)[OF db])
  have eb: "dict_get (fcontext (snd (snd (projr ?D)))) ''error_type'' (Str []) = Str ''timeout''"
    by (simp add: fb dict_get_def)
  have nv: "\<not> isl ?V" by code_simp
  then have vb: "?V = Inr (fst (projr ?V), snd (projr ?V))" by (cases ?V) simp_all
  have gb: "sample_generate (snd (snd (projr ?D))) = Inr (projr (sample_generate (snd (snd (projr ?D)))))"
    by (simp add: sample_generate_def)
  have evb: "sample_evaluation (snd (snd (projr ?D)))
             = Inr (projr (sample_evaluation (snd (snd (projr ?D)))))"
    by (simp add: sample_evaluation_def)
  have sb: "determine_healing_pattern ?fb = Inr (Some ''circuit_breaker'')" by code_simp
  from handle_failure_step_order[where dbg = "debug_failure sample_template"
      and pc = perform_check and gen = sample_generate and ev = sample_evaluation
      and tpl = sample_template and st = new_protocol and f = ?fb, OF db eb vb gb evb]
  obtain res2 st2 sel2 where
    rb: "?B = Inr (res2, st2)"
    and sel2: "determine_healing_pattern (snd (snd (projr ?D))) = Inr sel2"
    and nb: "step_names res2
             = [''debug''] @ (if has_code_changes (fst (projr ?D)) then [''verify''] else [])
               @ [''regression_test''] @ (if sel2 \<noteq> None then [''self_healing''] else [])
               @ [''evaluation'']"
    by (elim exE conjE)
  from sel2 sb fb have "sel2 \<noteq> None"
    by (simp add: determine_healing_pattern_def)
  with nb debug_failure_Inr(1)[OF db]
  have "step_names res2
        = [''debug'', ''verify'', ''regression_test'', ''self_healing'', ''evaluation'']"
    by simp
  with rb have b1: "\<not> isl ?B"
    and b2: "step_names (fst (projr ?B))
             = [''debug'', ''verify'', ''regression_test'', ''self_healing'', ''evaluation'']"
    by simp_all
  show ?thesis by (intro conjI) (rule da, rule a1, rule a2, rule nd, rule b1, rule b2)
qed

theorem handle_failure_steps_depend_on_context_witness:
  "fcontext \<lparr>ftype = MCP_ERROR, description = ''Connection timeout to MCP server'',
             fcontext = [(''error_type'', Str ''timeout''),
                         (''traceback'', Str ''TimeoutError: Connection timed out after 30s''),
                         (''target'', Str ''mcp_connect'')],
             timestamp = ''2024-01-01T00:00:00'', resolved = False, resolution = None\<rparr>
     = fcontext \<lparr>ftype = RUNTIME_ERROR, description = ''Second report of the same incident'',
             fcontext = [(''error_type'', Str ''timeout''),
                         (''traceback'', Str ''TimeoutError: Connection timed out after 30s''),
                         (''target'', Str ''mcp_connect'')],
             timestamp = ''2024-01-02T09:30:00'', resolved = False, resolution = None\<rparr>
   \<and> \<not> isl (handle_failure (debug_failure sample_template) perform_check sample_generate
             sample_evaluation sample_template new_protocol
             \<lparr>ftype = MCP_ERROR, description = ''Connection timeout to MCP server'',
              fcontext = [(''error_type'', Str ''timeout''),
                          (''traceback'', Str ''TimeoutError: Connection timed out after 30s''),
                          (''target'', Str ''mcp_connect'')],
              timestamp = ''2024-01-01T00:00:00'', resolved = False, resolution = None\<rparr>)
   \<and> \<not> isl (handle_failure (debug_failure sample_template) perform_check sample_generate
             sample_evaluation sample_template new_protocol
             \<lparr>ftype = RUNTIME_ERROR, description = ''Second report of the same incident'',
              fcontext = [(''error_type'', Str ''timeout''),
                          (''traceback'', Str ''TimeoutError: Connection timed out after 30s''),
                          (''target'', Str ''mcp_connect'')],
              timestamp = ''2024-01-02T09:30:00'', resolved = False, resolution = None\<rparr>)
   \<and> step_names (fst (projr
         (handle_failure (debug_failure sample_template) perform_check sample_generate
             sample_evaluation sample_template new_protocol
             \<lparr>ftype = MCP_ERROR, description = ''Connection timeout to MCP server'',
              fcontext = [(''error_type'', Str ''timeout''),
                          (''traceback'', Str ''TimeoutError: Connection timed out after 30s''),
                          (''target'', Str ''mcp_connect'')],
              timestamp = ''2024-01-01T00:00:00'', resolved = False, resolution = None\<rparr>)))
     = step_names (fst (projr
         (handle_failure (debug_failure sample_template) perform_check sample_generate
             sample_evaluation sample_template new_protocol
             \<lparr>ftype = RUNTIME_ERROR, description = ''Second report of the same incident'',
              fcontext = [(''error_type'', Str ''timeout''),
                          (''traceback'', Str ''TimeoutError: Connection timed out after 30s''),
                          (''target'', Str ''mcp_connect'')],
              timestamp = ''2024-01-02T09:30:00'', resolved = False, resolution = None\<rparr>)))
   \<and> healing_patterns (steps (fst (projr
         (handle_failure (debug_failure sample_template) perform_check sample_generate
             sample_evaluation sample_template new_protocol
             \<lparr>ftype = RUNTIME_ERROR, description = ''Second report of the same incident'',
              fcontext = [(''error_type'', Str ''timeout''),
                          (''traceback'', Str ''TimeoutError: Connection timed out after 30s''),
                          (''target'', Str ''mcp_connect'')],
              timestamp = ''2024-01-02T09:30:00'', resolved = False, resolution = None\<rparr>))))
     = [''circuit_breaker'']"
proof -
  let ?f1 = "\<lparr>ftype = MCP_ERROR, description = ''Connection timeout to MCP server'',
              fcontext = [(''error_type'', Str ''timeout''),
                          (''traceback'', Str ''TimeoutError: Connection timed out after 30s''),
                          (''target'', Str ''mcp_connect'')],
              timestamp = ''2024-01-01T00:00:00'', resolved = False, resolution = None\<rparr>"
  let ?f2 = "\<lparr>ftype = RUNTIME_ERROR, description = ''Second report of the same incident'',
              fcontext = [(''error_type'', Str ''timeout''),
                          (''traceback'', Str ''TimeoutError: Connection timed out after 30s''),
                          (''target'', Str ''mcp_connect'')],
              timestamp = ''2024-01-02T09:30:00'', resolved = False, resolution = None\<rparr>"
  let ?A = "handle_failure (debug_failure sample_template) perform_check sample_generate
             sample_evaluation sample_template new_protocol ?f1"
  let ?B = "handle_failure (debug_failure sample_template) perform_check sample_generate
             sample_evaluation sample_template new_protocol ?f2"
  have c: "fcontext ?f1 = fcontext ?f2" by simp
  have na: "\<not> isl ?A" by code_simp
  have nb: "\<not> isl ?B" by code_simp
  from na have a: "?A = Inr (fst (projr ?A), snd (projr ?A))" by (cases ?A) simp_all
  from nb have b: "?B = Inr (fst (projr ?B), snd (projr ?B))" by (cases ?B) simp_all
  note t = handle_failure_steps_depend_on_context[OF c a b]
  have p1: "healing_patterns (steps (fst (projr ?A))) = [''circuit_breaker'']" by code_simp
  have p2: "healing_patterns (steps (fst (projr ?B))) = [''circuit_breaker'']"
    using t[THEN conjunct2] p1 by simp
  show ?thesis by (intro conjI) (rule c, rule na, rule nb, rule t[THEN conjunct1], rule p2)
qed

end
